theory Spec2Isabelle
  imports Main "HOL-Library.Word"
begin

unbundle bit_operations_syntax

section \<open>Common data\<close>

text \<open>
  An \<^verbatim>\<open>unsigned char\<close> is an 8-bit word.  An \<^verbatim>\<open>unsigned int\<close> is a natural number
  below \<open>2 ^ 32\<close>; where the C arithmetic can leave that range the wrap-around is written
  out with \<open>u32_add\<close> and \<open>u32_sub\<close>.  A C array argument together with its size
  argument is one list.

  A function whose C original may fail to return a value returns an \<open>option\<close>:
  \<open>None\<close> stands for an \<^verbatim>\<open>assert\<close> that aborts, an array access outside its
  bounds (or to a cell never written), or a loop that does not terminate.
\<close>

type_synonym byte = "8 word"

definition u32_add :: "nat \<Rightarrow> nat \<Rightarrow> nat" where
  "u32_add a b = (a + b) mod 2 ^ 32"

definition u32_sub :: "nat \<Rightarrow> nat \<Rightarrow> nat" where
  "u32_sub a b = (a + 2 ^ 32 - b mod 2 ^ 32) mod 2 ^ 32"

text \<open>
  A callee that fills a caller's buffer returns the bytes it wrote; \<open>store\<close> puts them
  at the front of the buffer, whose length does not change.
\<close>

definition store :: "byte list \<Rightarrow> byte list \<Rightarrow> byte list" where
  "store buf bytes = take (length buf) (bytes @ drop (length bytes) buf)"

text \<open>The status codes of \<^verbatim>\<open>dc_status_t\<close> that the sources return.\<close>

datatype dc_status =
    DC_STATUS_SUCCESS
  | DC_STATUS_UNSUPPORTED
  | DC_STATUS_INVALIDARGS
  | DC_STATUS_NOMEMORY
  | DC_STATUS_IO
  | DC_STATUS_TIMEOUT
  | DC_STATUS_PROTOCOL
  | DC_STATUS_DATAFORMAT

text \<open>
  Modelled from the spec: \<^verbatim>\<open>array_uint16_le\<close> of \<^verbatim>\<open>array.h\<close>, which is not among the
  sources: a 16-bit little-endian value, low byte first.
\<close>

definition array_uint16_le :: "byte \<Rightarrow> byte \<Rightarrow> nat" where
  "array_uint16_le lo hi = unat lo + 256 * unat hi"

text \<open>
  Modelled from the spec: \<^verbatim>\<open>checksum_xor_uint8\<close> of \<^verbatim>\<open>checksum.h\<close>, which is not among
  the sources: the byte-wise exclusive-or fold over the given range, from \<open>init\<close>.
\<close>

definition checksum_xor_uint8 :: "byte list \<Rightarrow> byte \<Rightarrow> byte" where
  "checksum_xor_uint8 bytes init = fold (\<lambda>b crc. crc XOR b) bytes init"

text \<open>
  Modelled from the spec: \<^verbatim>\<open>ringbuffer_distance\<close> of \<^verbatim>\<open>ringbuffer.h\<close>, which is not
  among the sources.  It returns \<open>b - a\<close> if \<open>b \<ge> a\<close>, else \<open>(end - begin) - (a - b)\<close>;
  when \<open>a = b\<close> it returns \<open>end - begin\<close> if \<open>mode\<close> (the spec's \<open>wrap_full\<close>) is set and
  \<open>0\<close> otherwise.  The subtractions are those of \<^verbatim>\<open>unsigned int\<close>.
\<close>

definition ringbuffer_distance :: "nat \<Rightarrow> nat \<Rightarrow> bool \<Rightarrow> nat \<Rightarrow> nat \<Rightarrow> nat" where
  "ringbuffer_distance a b mode begin end =
     (if a = b then (if mode then u32_sub end begin else 0)
      else if a < b then u32_sub b a
      else u32_sub (u32_sub end begin) (u32_sub a b))"

section \<open>Family B: \<^verbatim>\<open>suunto_common2\<close>\<close>

definition MAXRETRIES :: nat where "MAXRETRIES = 2"
definition SZ_VERSION :: nat where "SZ_VERSION = 0x04"
definition SZ_PACKET :: nat where "SZ_PACKET = 0x78"
definition SZ_MINIMUM :: nat where "SZ_MINIMUM = 8"
definition FP_OFFSET :: nat where "FP_OFFSET = 0x15"

text \<open>
  The layout and the device structure are declared in \<^verbatim>\<open>suunto_common2.h\<close>, which is not
  among the sources; the records hold the fields the sources use.  The width of the
  fingerprint, \<^verbatim>\<open>sizeof (device->fingerprint)\<close>, is the length of the list.
\<close>

record suunto_common2_layout =
  memsize :: nat
  serial :: nat
  rb_profile_begin :: nat
  rb_profile_end :: nat

text \<open>
  The backend's \<^verbatim>\<open>packet\<close> function pointer sends one command and receives one answer.
  It gets the command, the size \<^verbatim>\<open>asize\<close> of the answer buffer, the payload size and the
  state of the transport, and returns a status, the bytes it wrote to the answer buffer
  and the new state of the transport.  \<open>None\<close> is the \<^verbatim>\<open>NULL\<close> pointer.
\<close>

type_synonym 'd packet_fn =
  "byte list \<Rightarrow> nat \<Rightarrow> nat \<Rightarrow> 'd \<Rightarrow> (dc_status \<times> byte list) \<times> 'd"

record 'd suunto_common2_device =
  packet :: "'d packet_fn option"
  layout :: suunto_common2_layout
  fingerprint :: "byte list"

subsection \<open>\<^verbatim>\<open>suunto_common2_transfer\<close>\<close>

text \<open>
  The \<^verbatim>\<open>while\<close> loop of the transfer: \<open>nretries\<close> is the counter, compared before its
  increment.
\<close>

function transfer_retry ::
  "'d packet_fn \<Rightarrow> byte list \<Rightarrow> byte list \<Rightarrow> nat \<Rightarrow> nat \<Rightarrow> 'd \<Rightarrow> (dc_status \<times> byte list) \<times> 'd"
where
  "transfer_retry pk command answer sz nretries port =
     (case pk command (length answer) sz port of
        ((rc, bytes), port') \<Rightarrow>
          let answer' = store answer bytes in
          if rc = DC_STATUS_SUCCESS then ((rc, answer'), port')
          else if rc \<noteq> DC_STATUS_TIMEOUT \<and> rc \<noteq> DC_STATUS_PROTOCOL then ((rc, answer'), port')
          else if nretries \<ge> MAXRETRIES then ((rc, answer'), port')
          else transfer_retry pk command answer' sz (nretries + 1) port')"
  by pat_completeness auto
termination
  by (relation "measure (\<lambda>(pk, command, answer, sz, nretries, port). MAXRETRIES - nretries)") auto

declare transfer_retry.simps [simp del]

definition suunto_common2_transfer ::
  "'d suunto_common2_device \<Rightarrow> byte list \<Rightarrow> byte list \<Rightarrow> nat \<Rightarrow> 'd
     \<Rightarrow> ((dc_status \<times> byte list) \<times> 'd) option"
where
  "suunto_common2_transfer device command answer sz port =
     (if \<not> length answer \<ge> sz + 4 then None
      else case packet device of
        None \<Rightarrow> Some ((DC_STATUS_UNSUPPORTED, answer), port)
      | Some pk \<Rightarrow> Some (transfer_retry pk command answer sz 0 port))"

subsection \<open>\<^verbatim>\<open>suunto_common2_device_set_fingerprint\<close>\<close>

definition suunto_common2_device_set_fingerprint ::
  "'d suunto_common2_device \<Rightarrow> byte list \<Rightarrow> dc_status \<times> 'd suunto_common2_device"
where
  "suunto_common2_device_set_fingerprint device data =
     (let sz = length data in
      if sz \<noteq> 0 \<and> sz \<noteq> length (fingerprint device) then (DC_STATUS_INVALIDARGS, device)
      else if sz \<noteq> 0 then
        (DC_STATUS_SUCCESS, device\<lparr>fingerprint := take (length (fingerprint device)) data\<rparr>)
      else
        (DC_STATUS_SUCCESS, device\<lparr>fingerprint := replicate (length (fingerprint device)) 0\<rparr>))"


subsection \<open>\<^verbatim>\<open>suunto_common2_device_version\<close>\<close>

definition suunto_common2_device_version ::
  "'d suunto_common2_device \<Rightarrow> nat \<Rightarrow> 'd \<Rightarrow> ((dc_status \<times> byte list) \<times> 'd) option"
where
  "suunto_common2_device_version device sz port =
     (if sz < SZ_VERSION then Some ((DC_STATUS_INVALIDARGS, []), port)
      else
        let answer = replicate (SZ_VERSION + 4) 0;
            command = [0x0F, 0x00, 0x00, 0x0F]
        in (case suunto_common2_transfer device command answer 4 port of
              None \<Rightarrow> None
            | Some ((rc, answer'), port') \<Rightarrow>
                if rc \<noteq> DC_STATUS_SUCCESS then Some ((rc, []), port')
                else Some ((DC_STATUS_SUCCESS, take SZ_VERSION (drop 3 answer')), port')))"

subsection \<open>\<^verbatim>\<open>suunto_common2_device_read\<close>\<close>

text \<open>
  The \<^verbatim>\<open>while\<close> loop of the reader.  The list \<open>data\<close> holds the bytes copied so far: the
  destination from its start to the moving pointer.
\<close>

function read_packages ::
  "'d suunto_common2_device \<Rightarrow> nat \<Rightarrow> nat \<Rightarrow> nat \<Rightarrow> byte list \<Rightarrow> 'd
     \<Rightarrow> ((dc_status \<times> byte list) \<times> 'd) option"
where
  "read_packages device address sz nbytes data port =
     (if nbytes < sz then
        let len = (if sz - nbytes > SZ_PACKET then SZ_PACKET else sz - nbytes);
            answer = replicate (len + 7) 0;
            command = [0x05, 0x00, 0x03,
                       of_nat ((address div 2 ^ 8) mod 2 ^ 8),
                       of_nat (address mod 2 ^ 8),
                       of_nat len,
                       0];
            command = command[6 := checksum_xor_uint8 (take 6 command) 0x00]
        in (case suunto_common2_transfer device command answer len port of
              None \<Rightarrow> None
            | Some ((rc, answer'), port') \<Rightarrow>
                if rc \<noteq> DC_STATUS_SUCCESS then Some ((rc, data), port')
                else read_packages device (u32_add address len) sz (nbytes + len)
                       (data @ take len (drop 6 answer')) port')
      else Some ((DC_STATUS_SUCCESS, data), port))"
  by pat_completeness auto
termination
  by (relation "measure (\<lambda>(device, address, sz, nbytes, data, port). sz - nbytes)")
     (auto simp: SZ_PACKET_def)

declare read_packages.simps [simp del]

definition suunto_common2_device_read ::
  "'d suunto_common2_device \<Rightarrow> nat \<Rightarrow> nat \<Rightarrow> 'd \<Rightarrow> ((dc_status \<times> byte list) \<times> 'd) option"
where
  "suunto_common2_device_read device address sz port = read_packages device address sz 0 [] port"

subsection \<open>\<^verbatim>\<open>suunto_common2_device_foreach\<close>\<close>

text \<open>
  The memory buffer of the dives comes from \<^verbatim>\<open>malloc\<close>: a cell is \<open>None\<close> until it is
  written.  \<open>buf_write\<close> copies bytes into the buffer and \<open>buf_slice\<close> reads bytes from it; both
  are \<open>None\<close> outside the buffer, and \<open>buf_slice\<close> also where a cell was never written.
\<close>

definition buf_write :: "byte option list \<Rightarrow> nat \<Rightarrow> byte list \<Rightarrow> byte option list option" where
  "buf_write buf off bytes =
     (if off + length bytes \<le> length buf
      then Some (take off buf @ map Some bytes @ drop (off + length bytes) buf)
      else None)"

definition buf_slice :: "byte option list \<Rightarrow> nat \<Rightarrow> nat \<Rightarrow> byte list option" where
  "buf_slice buf off n = (if off + n \<le> length buf then those (take n (drop off buf)) else None)"

definition RB_PROFILE_DISTANCE_B :: "suunto_common2_layout \<Rightarrow> nat \<Rightarrow> nat \<Rightarrow> bool \<Rightarrow> nat" where
  "RB_PROFILE_DISTANCE_B l a b m =
     ringbuffer_distance a b m (rb_profile_begin l) (rb_profile_end l)"

text \<open>
  The inner \<^verbatim>\<open>while\<close> loop, which reads the packages of one dive backwards.  It returns
  the status of the last read and the variables \<open>nbytes\<close>, \<open>address\<close>, \<open>offset\<close>, the buffer
  and the port.  The loop need not terminate for every layout, so \<open>None\<close> is also the
  result of a loop that runs forever.
\<close>

partial_function (option) foreach_packages ::
  "'d suunto_common2_device \<Rightarrow> nat \<Rightarrow> nat \<Rightarrow> nat \<Rightarrow> nat \<Rightarrow> nat \<Rightarrow> byte option list \<Rightarrow> 'd
     \<Rightarrow> (dc_status \<times> nat \<times> nat \<times> nat \<times> byte option list \<times> 'd) option"
where
  "foreach_packages device sz remaining nbytes address offset data port =
     (if nbytes < sz then
        let l = layout device;
            address = (if address = rb_profile_begin l then rb_profile_end l else address);
            len = SZ_PACKET;
            len = (if u32_add (rb_profile_begin l) len > address
                   then u32_sub address (rb_profile_begin l) else len);
            len = (if u32_add nbytes len > remaining then u32_sub remaining nbytes else len);
            offset = u32_sub offset len;
            address = u32_sub address len;
            extra = (if len < SZ_MINIMUM then SZ_MINIMUM - len else 0)
        in (case suunto_common2_device_read device (u32_sub address extra) (u32_add len extra) port of
              None \<Rightarrow> None
            | Some ((rc, bytes), port') \<Rightarrow>
                if rc \<noteq> DC_STATUS_SUCCESS then Some (rc, nbytes, address, offset, data, port')
                else if offset < extra then None
                else (case buf_write data (offset - extra) bytes of
                        None \<Rightarrow> None
                      | Some data' \<Rightarrow>
                          foreach_packages device sz remaining (u32_add nbytes len)
                            address offset data' port'))
      else Some (DC_STATUS_SUCCESS, nbytes, address, offset, data, port))"

declare foreach_packages.simps [code]

text \<open>
  The local variables of the function that live through the outer \<^verbatim>\<open>while\<close> loop: the
  model number of the device info, the buffer \<^verbatim>\<open>data\<close>, the counters and pointers, the
  delayed \<^verbatim>\<open>status\<close>; with them the caller's \<^verbatim>\<open>userdata\<close> and the port.
\<close>

record ('u, 'd) foreach_vars =
  fe_model :: byte
  fe_data :: "byte option list"
  fe_remaining :: nat
  fe_available :: nat
  fe_current :: nat
  fe_previous :: nat
  fe_address :: nat
  fe_offset :: nat
  fe_status :: dc_status
  fe_userdata :: 'u
  fe_port :: 'd

text \<open>
  A part of the function either returns from it, with a status, or goes on to the next
  part with the values of the variables.
\<close>

datatype ('u, 'd) foreach_step =
    Return dc_status 'u 'd
  | Continue "('u, 'd) foreach_vars"

text \<open>
  The dive callback gets the dive, the fingerprint and the user data, and returns whether
  to go on.  \<open>None\<close> is the \<^verbatim>\<open>NULL\<close> pointer.
\<close>

type_synonym 'u dive_callback = "byte list \<Rightarrow> byte list \<Rightarrow> 'u \<Rightarrow> bool \<times> 'u"

text \<open>
  The function up to the outer loop: the version, the serial number and the header are
  read, the pointers of the header are checked and the buffer is allocated.  \<open>alloc n\<close>
  tells whether \<^verbatim>\<open>malloc\<close> finds \<open>n\<close> bytes.  The progress and device-info events that
  the function emits are left out: they do not change what it returns or what it passes
  to the callback.
\<close>

definition foreach_begin ::
  "'d suunto_common2_device \<Rightarrow> (nat \<Rightarrow> bool) \<Rightarrow> 'u \<Rightarrow> 'd \<Rightarrow> ('u, 'd) foreach_step option"
where
  "foreach_begin device alloc userdata port =
     (let l = layout device in
      case suunto_common2_device_version device SZ_VERSION port of
        None \<Rightarrow> None
      | Some ((rc, version), port1) \<Rightarrow>
          if rc \<noteq> DC_STATUS_SUCCESS then Some (Return rc userdata port1)
          else
            (case suunto_common2_device_read device (serial l)
                    (if SZ_MINIMUM > 4 then SZ_MINIMUM else 4) port1 of
               None \<Rightarrow> None
             | Some ((rc, serial_number), port2) \<Rightarrow>
                 if rc \<noteq> DC_STATUS_SUCCESS then Some (Return rc userdata port2)
                 else
                   let model = version ! 0 in
                   (case suunto_common2_device_read device 0x0190 8 port2 of
                      None \<Rightarrow> None
                    | Some ((rc, header), port3) \<Rightarrow>
                        if rc \<noteq> DC_STATUS_SUCCESS then Some (Return rc userdata port3)
                        else
                          let last = array_uint16_le (header ! 0) (header ! 1);
                              count = array_uint16_le (header ! 2) (header ! 3);
                              end = array_uint16_le (header ! 4) (header ! 5);
                              begin = array_uint16_le (header ! 6) (header ! 7)
                          in if last < rb_profile_begin l \<or> last \<ge> rb_profile_end l \<or>
                                end < rb_profile_begin l \<or> end \<ge> rb_profile_end l \<or>
                                begin < rb_profile_begin l \<or> begin \<ge> rb_profile_end l
                             then Some (Return DC_STATUS_DATAFORMAT userdata port3)
                             else
                               let n = u32_add (u32_sub (rb_profile_end l) (rb_profile_begin l))
                                         SZ_MINIMUM
                               in if \<not> alloc n then Some (Return DC_STATUS_NOMEMORY userdata port3)
                                  else
                                    let remaining = RB_PROFILE_DISTANCE_B l begin end (count \<noteq> 0)
                                    in Some (Continue
                                         \<lparr>fe_model = model,
                                          fe_data = replicate n None,
                                          fe_remaining = remaining,
                                          fe_available = 0,
                                          fe_current = last,
                                          fe_previous = end,
                                          fe_address = end,
                                          fe_offset = u32_add remaining SZ_MINIMUM,
                                          fe_status = DC_STATUS_SUCCESS,
                                          fe_userdata = userdata,
                                          fe_port = port3\<rparr>))))"

text \<open>
  One pass through the body of the outer loop.  It returns from the function or reaches
  the end of the body (\<^verbatim>\<open>// Next dive.\<close>).
\<close>

definition foreach_dive ::
  "'d suunto_common2_device \<Rightarrow> 'u dive_callback option \<Rightarrow> ('u, 'd) foreach_vars
     \<Rightarrow> ('u, 'd) foreach_step option"
where
  "foreach_dive device callback s =
     (let l = layout device;
          sz = RB_PROFILE_DISTANCE_B l (fe_current s) (fe_previous s) True
      in
      if sz < 4 \<or> sz > fe_remaining s
      then Some (Return DC_STATUS_DATAFORMAT (fe_userdata s) (fe_port s))
      else
        (case foreach_packages device sz (fe_remaining s) (fe_available s) (fe_address s)
                (fe_offset s) (fe_data s) (fe_port s) of
           None \<Rightarrow> None
         | Some (rc, nbytes, address, offset, data, port) \<Rightarrow>
             if rc \<noteq> DC_STATUS_SUCCESS then Some (Return rc (fe_userdata s) port)
             else
               let remaining = u32_sub (fe_remaining s) sz;
                   available = u32_sub nbytes sz;
                   p = offset + available
               in (case buf_slice data p 4 of
                     None \<Rightarrow> None
                   | Some trailer \<Rightarrow>
                       let prev = array_uint16_le (trailer ! 0) (trailer ! 1);
                           next = array_uint16_le (trailer ! 2) (trailer ! 3)
                       in if prev < rb_profile_begin l \<or> prev \<ge> rb_profile_end l \<or>
                             next < rb_profile_begin l \<or> next \<ge> rb_profile_end l
                          then Some (Return DC_STATUS_DATAFORMAT (fe_userdata s) port)
                          else if next \<noteq> fe_previous s \<and> next \<noteq> fe_current s
                          then Some (Return DC_STATUS_DATAFORMAT (fe_userdata s) port)
                          else
                            let s' = s\<lparr>fe_data := data, fe_remaining := remaining,
                                       fe_available := available, fe_address := address,
                                       fe_offset := offset, fe_port := port,
                                       fe_previous := fe_current s, fe_current := prev\<rparr>
                            in if next \<noteq> fe_current s then
                                 let fp_offset = FP_OFFSET + (if fe_model s = 0x15 then 6 else 0) in
                                 (case buf_slice data (p + fp_offset) (length (fingerprint device)) of
                                    None \<Rightarrow> None
                                  | Some fp \<Rightarrow>
                                      if fp = fingerprint device
                                      then Some (Return DC_STATUS_SUCCESS (fe_userdata s) port)
                                      else
                                        (case callback of
                                           None \<Rightarrow> Some (Continue s')
                                         | Some cb \<Rightarrow>
                                             (case buf_slice data (p + 4) (sz - 4) of
                                                None \<Rightarrow> None
                                              | Some dive \<Rightarrow>
                                                  (case cb dive fp (fe_userdata s) of
                                                     (continue, userdata) \<Rightarrow>
                                                       if \<not> continue
                                                       then Some (Return DC_STATUS_SUCCESS userdata port)
                                                       else Some (Continue (s'\<lparr>fe_userdata := userdata\<rparr>))))))
                               else Some (Continue (s'\<lparr>fe_status := DC_STATUS_DATAFORMAT\<rparr>)))))"

text \<open>The outer loop ends: each pass takes at least four bytes from \<open>remaining\<close>.\<close>

lemma u32_sub_less: "4 \<le> sz \<Longrightarrow> sz \<le> r \<Longrightarrow> u32_sub r sz < r"
proof (cases "r < 2 ^ 32")
  case True
  assume "4 \<le> sz" "sz \<le> r"
  with True have "u32_sub r sz = r - sz"
    by (simp add: u32_sub_def mod_if)
  with \<open>4 \<le> sz\<close> \<open>sz \<le> r\<close> show ?thesis by simp
next
  case False
  have "u32_sub r sz < 2 ^ 32"
    by (simp add: u32_sub_def)
  with False show ?thesis by simp
qed

lemma foreach_dive_remaining:
  "foreach_dive device callback s = Some (Continue s') \<Longrightarrow> fe_remaining s' < fe_remaining s"
  by (auto simp: foreach_dive_def Let_def not_less not_le
        split: if_splits option.splits prod.splits intro!: u32_sub_less)

text \<open>The outer \<^verbatim>\<open>while\<close> loop and the two statements after it.\<close>

function foreach_dives ::
  "'d suunto_common2_device \<Rightarrow> 'u dive_callback option \<Rightarrow> ('u, 'd) foreach_vars
     \<Rightarrow> ((dc_status \<times> 'u) \<times> 'd) option"
where
  "foreach_dives device callback s =
     (if fe_remaining s \<noteq> 0 then
        (case foreach_dive device callback s of
           None \<Rightarrow> None
         | Some (Return rc userdata port) \<Rightarrow> Some ((rc, userdata), port)
         | Some (Continue s') \<Rightarrow> foreach_dives device callback s')
      else Some ((fe_status s, fe_userdata s), fe_port s))"
  by pat_completeness auto
termination
  by (relation "measure (\<lambda>(device, callback, s). fe_remaining s)")
     (auto dest: foreach_dive_remaining)

declare foreach_dives.simps [simp del]

definition suunto_common2_device_foreach ::
  "'d suunto_common2_device \<Rightarrow> (nat \<Rightarrow> bool) \<Rightarrow> 'u dive_callback option \<Rightarrow> 'u \<Rightarrow> 'd
     \<Rightarrow> ((dc_status \<times> 'u) \<times> 'd) option"
where
  "suunto_common2_device_foreach device alloc callback userdata port =
     (case foreach_begin device alloc userdata port of
        None \<Rightarrow> None
      | Some (Return rc userdata' port') \<Rightarrow> Some ((rc, userdata'), port')
      | Some (Continue s) \<Rightarrow> foreach_dives device callback s)"

section \<open>Family A: \<^verbatim>\<open>oceanic_atom2\<close>\<close>

datatype oceanic_status =
    OCEANIC_SUCCESS
  | OCEANIC_ERROR
  | OCEANIC_ERROR_IO
  | OCEANIC_ERROR_MEMORY
  | OCEANIC_ERROR_PROTOCOL
  | OCEANIC_ERROR_TIMEOUT

text \<open>
  Modelled from the spec: \<^verbatim>\<open>OCEANIC_ATOM2_PACKET_SIZE\<close> of \<^verbatim>\<open>oceanic.h\<close>, which is not
  among the sources.  The spec's logbook entry has 8 bytes and its size is
  \<open>packet_size / 2\<close>.
\<close>

definition OCEANIC_ATOM2_PACKET_SIZE :: nat where "OCEANIC_ATOM2_PACKET_SIZE = 16"

definition RB_LOGBOOK_EMPTY :: nat where "RB_LOGBOOK_EMPTY = 0x0230"
definition RB_LOGBOOK_BEGIN :: nat where "RB_LOGBOOK_BEGIN = 0x0240"
definition RB_LOGBOOK_END :: nat where "RB_LOGBOOK_END = 0x0A40"

text \<open>
  This file calls \<^verbatim>\<open>ringbuffer_distance\<close> without a mode: the spec's distance without
  \<open>wrap_full\<close>, which is 0 for equal pointers.
\<close>

definition RB_LOGBOOK_DISTANCE :: "nat \<Rightarrow> nat \<Rightarrow> nat" where
  "RB_LOGBOOK_DISTANCE a b = ringbuffer_distance a b False RB_LOGBOOK_BEGIN RB_LOGBOOK_END"

definition RB_PROFILE_EMPTY :: nat where "RB_PROFILE_EMPTY = 0x0A40"
definition RB_PROFILE_BEGIN :: nat where "RB_PROFILE_BEGIN = 0x0A50"
definition RB_PROFILE_END :: nat where "RB_PROFILE_END = 0xFFF0"

definition RB_PROFILE_DISTANCE :: "nat \<Rightarrow> nat \<Rightarrow> nat" where
  "RB_PROFILE_DISTANCE a b = ringbuffer_distance a b False RB_PROFILE_BEGIN RB_PROFILE_END"

definition PT_LOGBOOK_FIRST :: "byte list \<Rightarrow> nat" where
  "PT_LOGBOOK_FIRST x = unat (x ! 4) + unat (x ! 5) * 2 ^ 8"

definition PT_LOGBOOK_LAST :: "byte list \<Rightarrow> nat" where
  "PT_LOGBOOK_LAST x = unat (x ! 6) + unat (x ! 7) * 2 ^ 8"

definition PT_PROFILE_FIRST :: "byte list \<Rightarrow> nat" where
  "PT_PROFILE_FIRST x = unat (x ! 5) + unat (x ! 6 AND 0x0F) * 2 ^ 8"

definition PT_PROFILE_LAST :: "byte list \<Rightarrow> nat" where
  "PT_PROFILE_LAST x = unat (drop_bit 4 (x ! 6)) + unat (x ! 7) * 2 ^ 4"

text \<open>
  The serial library is not among the sources.  Its operations are taken as parameters,
  over a state \<open>'p\<close> of the port.  The sources ignore what \<^verbatim>\<open>serial_write\<close> and
  \<^verbatim>\<open>serial_drain\<close> return.  \<^verbatim>\<open>serial_read\<close> gets the number of bytes wanted and
  returns its result (\<open>-1\<close> for an error, else the number of bytes read) and the bytes it
  wrote to the buffer.
\<close>

record 'p serial_ops =
  serial_write :: "byte list \<Rightarrow> 'p \<Rightarrow> 'p"
  serial_drain :: "'p \<Rightarrow> 'p"
  serial_read :: "nat \<Rightarrow> 'p \<Rightarrow> (int \<times> byte list) \<times> 'p"

definition oceanic_atom2_checksum :: "byte list \<Rightarrow> byte \<Rightarrow> byte" where
  "oceanic_atom2_checksum bytes init = fold (\<lambda>b crc. crc + b) bytes init"

definition oceanic_atom2_send :: "'p serial_ops \<Rightarrow> byte list \<Rightarrow> 'p \<Rightarrow> oceanic_status \<times> 'p" where
  "oceanic_atom2_send ops command port =
     (OCEANIC_SUCCESS, serial_drain ops (serial_write ops command port))"

text \<open>The \<^verbatim>\<open>for\<close> loop of the transfer, with its counter \<open>i\<close>.\<close>

function transfer_attempts ::
  "'p serial_ops \<Rightarrow> byte list \<Rightarrow> byte list \<Rightarrow> bool \<Rightarrow> nat \<Rightarrow> 'p
     \<Rightarrow> (oceanic_status \<times> byte list) \<times> 'p"
where
  "transfer_attempts ops command answer handshake i port =
     (case oceanic_atom2_send ops command port of
        (rc0, port1) \<Rightarrow>
          if rc0 \<noteq> OCEANIC_SUCCESS then ((rc0, answer), port1)
          else case serial_read ops (length answer) port1 of
            ((rc, bytes), port2) \<Rightarrow>
              let answer' = store answer bytes in
              if rc \<noteq> int (length answer) then
                (if rc = - 1 then ((OCEANIC_ERROR_IO, answer'), port2)
                 else if i < MAXRETRIES then
                   transfer_attempts ops command answer' handshake (i + 1) port2
                 else ((OCEANIC_ERROR_TIMEOUT, answer'), port2))
              else
                let header = (if handshake then 0xA5 else 0x5A) in
                if answer' ! 0 \<noteq> header then ((OCEANIC_ERROR_PROTOCOL, answer'), port2)
                else
                  let crc = answer' ! (length answer - 1);
                      ccrc = oceanic_atom2_checksum (take (length answer - 2) (drop 1 answer')) 0x00
                  in if crc \<noteq> ccrc then ((OCEANIC_ERROR_PROTOCOL, answer'), port2)
                     else ((OCEANIC_SUCCESS, answer'), port2))"
  by pat_completeness auto
termination
  by (relation "measure (\<lambda>(ops, command, answer, handshake, i, port). MAXRETRIES - i)") auto

declare transfer_attempts.simps [simp del]

definition oceanic_atom2_transfer ::
  "'p serial_ops \<Rightarrow> byte list \<Rightarrow> byte list \<Rightarrow> bool \<Rightarrow> 'p
     \<Rightarrow> ((oceanic_status \<times> byte list) \<times> 'p) option"
where
  "oceanic_atom2_transfer ops command answer handshake port =
     (if \<not> length answer \<ge> 2 then None
      else Some (transfer_attempts ops command answer handshake 0 port))"

text \<open>
  The data read so far is the list \<open>data\<close>: the destination buffer from its start to the
  moving pointer.
\<close>

function read_memory_packages ::
  "'p serial_ops \<Rightarrow> nat \<Rightarrow> nat \<Rightarrow> nat \<Rightarrow> byte list \<Rightarrow> 'p
     \<Rightarrow> ((oceanic_status \<times> byte list) \<times> 'p) option"
where
  "read_memory_packages ops address sz nbytes data port =
     (if nbytes < sz then
        let number = address div OCEANIC_ATOM2_PACKET_SIZE;
            answer = replicate (OCEANIC_ATOM2_PACKET_SIZE + 2) 0;
            command = [0xB1,
                       of_nat ((number div 2 ^ 8) mod 2 ^ 8),
                       of_nat (number mod 2 ^ 8),
                       0]
        in (case oceanic_atom2_transfer ops command answer False port of
              None \<Rightarrow> None
            | Some ((rc, answer'), port') \<Rightarrow>
                if rc \<noteq> OCEANIC_SUCCESS then Some ((rc, data), port')
                else read_memory_packages ops (address + OCEANIC_ATOM2_PACKET_SIZE) sz
                       (nbytes + OCEANIC_ATOM2_PACKET_SIZE)
                       (data @ take OCEANIC_ATOM2_PACKET_SIZE (drop 1 answer')) port')
      else Some ((OCEANIC_SUCCESS, data), port))"
  by pat_completeness auto
termination
  by (relation "measure (\<lambda>(ops, address, sz, nbytes, data, port). sz - nbytes)")
     (auto simp: OCEANIC_ATOM2_PACKET_SIZE_def)

declare read_memory_packages.simps [simp del]

definition oceanic_atom2_read_memory ::
  "'p serial_ops \<Rightarrow> nat \<Rightarrow> nat \<Rightarrow> 'p \<Rightarrow> ((oceanic_status \<times> byte list) \<times> 'p) option"
where
  "oceanic_atom2_read_memory ops address sz port =
     (if \<not> address mod OCEANIC_ATOM2_PACKET_SIZE = 0 then None
      else if \<not> sz mod OCEANIC_ATOM2_PACKET_SIZE = 0 then None
      else read_memory_packages ops address sz 0 [] port)"

definition oceanic_atom2_read_ringbuffer ::
  "'p serial_ops \<Rightarrow> nat \<Rightarrow> nat \<Rightarrow> nat \<Rightarrow> nat \<Rightarrow> 'p
     \<Rightarrow> ((oceanic_status \<times> byte list) \<times> 'p) option"
where
  "oceanic_atom2_read_ringbuffer ops address sz begin end port =
     (if \<not> (address \<ge> begin \<and> address < end) then None
      else if \<not> sz \<le> end - begin then None
      else if address + sz > end then
        let a = end - address;
            b = sz - a
        in (case oceanic_atom2_read_memory ops address a port of
              None \<Rightarrow> None
            | Some ((rc, data1), port1) \<Rightarrow>
                if rc \<noteq> OCEANIC_SUCCESS then Some ((rc, data1), port1)
                else (case oceanic_atom2_read_memory ops begin b port1 of
                        None \<Rightarrow> None
                      | Some ((rc, data2), port2) \<Rightarrow>
                          if rc \<noteq> OCEANIC_SUCCESS then Some ((rc, data1 @ data2), port2)
                          else Some ((OCEANIC_SUCCESS, data1 @ data2), port2)))
      else
        (case oceanic_atom2_read_memory ops address sz port of
           None \<Rightarrow> None
         | Some ((rc, data), port1) \<Rightarrow>
             if rc \<noteq> OCEANIC_SUCCESS then Some ((rc, data), port1)
             else Some ((OCEANIC_SUCCESS, data), port1)))"

text \<open>
  An array of \<open>n\<close> bytes that was initialised with zeros and then written from its start
  with the bytes \<open>written\<close>: the \<open>k\<close> bytes from index \<open>i\<close>, which exist only inside the
  array.
\<close>

definition zero_array_slice :: "nat \<Rightarrow> byte list \<Rightarrow> nat \<Rightarrow> nat \<Rightarrow> byte list option" where
  "zero_array_slice n written i k =
     (if i + k \<le> n then Some (take k (drop i (written @ replicate (n - length written) 0)))
      else None)"

text \<open>
  The \<^verbatim>\<open>for\<close> loop over the logbook entries.  \<open>current\<close> is the index into the array
  \<^verbatim>\<open>logbooks\<close> that the pointer of the same name points to.  The callback gets the dive
  and the user data; what it returns is not used.
\<close>

function read_dives_entries ::
  "'p serial_ops \<Rightarrow> (byte list \<Rightarrow> 'u \<Rightarrow> bool \<times> 'u) option \<Rightarrow> byte list \<Rightarrow> nat \<Rightarrow> nat \<Rightarrow> nat
     \<Rightarrow> 'u \<Rightarrow> 'p \<Rightarrow> ((oceanic_status \<times> 'u) \<times> 'p) option"
where
  "read_dives_entries ops callback logbooks current i logbook_count userdata port =
     (if i < logbook_count then
        (case zero_array_slice (RB_LOGBOOK_END - RB_LOGBOOK_BEGIN) logbooks current 8 of
           None \<Rightarrow> None
         | Some entry \<Rightarrow>
             let profile_first = PT_PROFILE_FIRST entry * OCEANIC_ATOM2_PACKET_SIZE;
                 profile_last = PT_PROFILE_LAST entry * OCEANIC_ATOM2_PACKET_SIZE;
                 profile_len = RB_PROFILE_DISTANCE profile_first profile_last
                                 + OCEANIC_ATOM2_PACKET_SIZE
             in (case oceanic_atom2_read_ringbuffer ops profile_first profile_len
                        RB_PROFILE_BEGIN RB_PROFILE_END port of
                   None \<Rightarrow> None
                 | Some ((rc, bytes), port') \<Rightarrow>
                     if rc \<noteq> OCEANIC_SUCCESS then Some ((rc, userdata), port')
                     else
                       let profile = entry @ bytes;
                           userdata' = (case callback of
                                          None \<Rightarrow> userdata
                                        | Some cb \<Rightarrow> snd (cb profile userdata))
                       in read_dives_entries ops callback logbooks
                            (current - OCEANIC_ATOM2_PACKET_SIZE div 2) (i + 1) logbook_count
                            userdata' port'))
      else Some ((OCEANIC_SUCCESS, userdata), port))"
  by pat_completeness auto
termination
  by (relation "measure (\<lambda>(ops, callback, logbooks, current, i, logbook_count, userdata, port).
        logbook_count - i)") auto

declare read_dives_entries.simps [simp del]

definition oceanic_atom2_read_dives ::
  "'p serial_ops \<Rightarrow> (byte list \<Rightarrow> 'u \<Rightarrow> bool \<times> 'u) option \<Rightarrow> 'u \<Rightarrow> 'p
     \<Rightarrow> ((oceanic_status \<times> 'u) \<times> 'p) option"
where
  "oceanic_atom2_read_dives ops callback userdata port =
     (case oceanic_atom2_read_memory ops 0x0040 OCEANIC_ATOM2_PACKET_SIZE port of
        None \<Rightarrow> None
      | Some ((rc, pointers), port1) \<Rightarrow>
          if rc \<noteq> OCEANIC_SUCCESS then Some ((rc, userdata), port1)
          else
            let logbook_first = PT_LOGBOOK_FIRST pointers;
                logbook_last = PT_LOGBOOK_LAST pointers
            in if logbook_first = RB_LOGBOOK_EMPTY \<and> logbook_last = RB_LOGBOOK_EMPTY
               then Some ((OCEANIC_SUCCESS, userdata), port1)
               else
                 let logbook_count =
                       RB_LOGBOOK_DISTANCE logbook_first logbook_last
                         div (OCEANIC_ATOM2_PACKET_SIZE div 2) + 1;
                     logbook_page_offset = logbook_first mod OCEANIC_ATOM2_PACKET_SIZE;
                     logbook_page_first =
                       (logbook_first div OCEANIC_ATOM2_PACKET_SIZE) * OCEANIC_ATOM2_PACKET_SIZE;
                     logbook_page_last =
                       (logbook_last div OCEANIC_ATOM2_PACKET_SIZE) * OCEANIC_ATOM2_PACKET_SIZE;
                     logbook_page_len =
                       RB_LOGBOOK_DISTANCE logbook_page_first logbook_page_last
                         + OCEANIC_ATOM2_PACKET_SIZE
                 in (case oceanic_atom2_read_ringbuffer ops logbook_page_first logbook_page_len
                            RB_LOGBOOK_BEGIN RB_LOGBOOK_END port1 of
                       None \<Rightarrow> None
                     | Some ((rc, logbooks), port2) \<Rightarrow>
                         if rc \<noteq> OCEANIC_SUCCESS then Some ((rc, userdata), port2)
                         else read_dives_entries ops callback logbooks
                                (logbook_page_offset
                                   + (logbook_count - 1) * (OCEANIC_ATOM2_PACKET_SIZE div 2))
                                0 logbook_count userdata port2))"


section \<open>Notions used to state the properties\<close>

text \<open>
  One attempt of the Family-B transfer: one call of the backend's packet function, the
  bytes it wrote stored in the answer buffer.
\<close>

definition suunto_common2_attempt ::
  "'d packet_fn \<Rightarrow> byte list \<Rightarrow> nat \<Rightarrow> byte list \<Rightarrow> 'd \<Rightarrow> (dc_status \<times> byte list) \<times> 'd"
where
  "suunto_common2_attempt pk command sz answer port =
     (case pk command (length answer) sz port of
        ((rc, bytes), port') \<Rightarrow> ((rc, store answer bytes), port'))"

text \<open>
  One attempt of the Family-A transfer: the command is written and drained, the answer
  is read and verified.  A short read that is not an error is a timeout.
\<close>

definition oceanic_atom2_attempt ::
  "'p serial_ops \<Rightarrow> byte list \<Rightarrow> bool \<Rightarrow> byte list \<Rightarrow> 'p
     \<Rightarrow> (oceanic_status \<times> byte list) \<times> 'p"
where
  "oceanic_atom2_attempt ops command handshake answer port =
     (case serial_read ops (length answer) (serial_drain ops (serial_write ops command port)) of
        ((rc, bytes), port') \<Rightarrow>
          let answer' = store answer bytes in
          if rc = - 1 then ((OCEANIC_ERROR_IO, answer'), port')
          else if rc \<noteq> int (length answer) then ((OCEANIC_ERROR_TIMEOUT, answer'), port')
          else if answer' ! 0 \<noteq> (if handshake then 0xA5 else 0x5A)
            then ((OCEANIC_ERROR_PROTOCOL, answer'), port')
          else if answer' ! (length answer - 1)
                 \<noteq> oceanic_atom2_checksum (take (length answer - 2) (drop 1 answer')) 0x00
            then ((OCEANIC_ERROR_PROTOCOL, answer'), port')
          else ((OCEANIC_SUCCESS, answer'), port'))"

text \<open>
  At most three attempts, each on the buffer and the port the attempt before it left:
  the result is that of the first attempt whose status is not to be retried, and that of
  the third attempt when the first two are to be retried.
\<close>

definition three_attempts ::
  "('s \<Rightarrow> bool) \<Rightarrow> (byte list \<Rightarrow> 'p \<Rightarrow> ('s \<times> byte list) \<times> 'p) \<Rightarrow> byte list \<Rightarrow> 'p
     \<Rightarrow> ('s \<times> byte list) \<times> 'p"
where
  "three_attempts retried attempt answer port =
     (case attempt answer port of
        ((rc1, answer1), port1) \<Rightarrow>
          if retried rc1 then
            (case attempt answer1 port1 of
               ((rc2, answer2), port2) \<Rightarrow>
                 if retried rc2 then attempt answer2 port2 else ((rc2, answer2), port2))
          else ((rc1, answer1), port1))"

text \<open>
  A callback that keeps a log: it calls the callback \<open>cb\<close> and appends the dive it was
  given to the log.
\<close>

definition recording :: "(byte list \<Rightarrow> 'u \<Rightarrow> bool \<times> 'u) \<Rightarrow> byte list \<Rightarrow> byte list list \<times> 'u
    \<Rightarrow> bool \<times> (byte list list \<times> 'u)" where
  "recording cb dive = (\<lambda>(log, u). case cb dive u of (r, u') \<Rightarrow> (r, (log @ [dive], u')))"

text \<open>
  What a pass of the outer loop of the Family-B extractor knows when it has read a dive
  and checked its pointers: the size of the dive, the variables and the buffer that the
  inner loop left, and the two pointers of the dive.
\<close>

record 'd dive_read =
  dr_size :: nat
  dr_nbytes :: nat
  dr_address :: nat
  dr_offset :: nat
  dr_data :: "byte option list"
  dr_port :: 'd
  dr_prev :: nat
  dr_next :: nat

text \<open>The index in the buffer where the dive starts: \<^verbatim>\<open>offset + available\<close>.\<close>

definition dive_pos :: "'d dive_read \<Rightarrow> nat" where
  "dive_pos d = dr_offset d + u32_sub (dr_nbytes d) (dr_size d)"

text \<open>
  \<open>reads_dive device s d\<close>: from the variables \<open>s\<close>, the pass computes the size
  \<open>dr_size d\<close>, which is at least 4 and at most \<open>remaining\<close>, the inner loop reads the
  packages without an error, and the pointers in the first four bytes of the dive are in
  the ring buffer and link the dive to \<open>previous\<close> or to itself.
\<close>

definition reads_dive ::
  "'d suunto_common2_device \<Rightarrow> ('u, 'd) foreach_vars \<Rightarrow> 'd dive_read \<Rightarrow> bool"
where
  "reads_dive device s d \<longleftrightarrow>
     dr_size d = RB_PROFILE_DISTANCE_B (layout device) (fe_current s) (fe_previous s) True \<and>
     4 \<le> dr_size d \<and> dr_size d \<le> fe_remaining s \<and>
     foreach_packages device (dr_size d) (fe_remaining s) (fe_available s) (fe_address s)
       (fe_offset s) (fe_data s) (fe_port s)
       = Some (DC_STATUS_SUCCESS, dr_nbytes d, dr_address d, dr_offset d, dr_data d, dr_port d) \<and>
     map_option (\<lambda>t. (array_uint16_le (t ! 0) (t ! 1), array_uint16_le (t ! 2) (t ! 3)))
       (buf_slice (dr_data d) (dive_pos d) 4) = Some (dr_prev d, dr_next d) \<and>
     rb_profile_begin (layout device) \<le> dr_prev d \<and> dr_prev d < rb_profile_end (layout device) \<and>
     rb_profile_begin (layout device) \<le> dr_next d \<and> dr_next d < rb_profile_end (layout device) \<and>
     (dr_next d = fe_previous s \<or> dr_next d = fe_current s)"

text \<open>The variables at the end of the pass (\<^verbatim>\<open>// Next dive.\<close>), but for status and user data.\<close>

definition next_vars :: "('u, 'd) foreach_vars \<Rightarrow> 'd dive_read \<Rightarrow> ('u, 'd) foreach_vars" where
  "next_vars s d =
     s\<lparr>fe_data := dr_data d,
       fe_remaining := u32_sub (fe_remaining s) (dr_size d),
       fe_available := u32_sub (dr_nbytes d) (dr_size d),
       fe_address := dr_address d,
       fe_offset := dr_offset d,
       fe_port := dr_port d,
       fe_previous := fe_current s,
       fe_current := dr_prev d\<rparr>"

text \<open>The offset of the fingerprint in a dive, for the model of the device.\<close>

definition fp_offset_of :: "byte \<Rightarrow> nat" where
  "fp_offset_of model = FP_OFFSET + (if model = 0x15 then 6 else 0)"

text \<open>
  \<open>traverses device callback s0 ts s\<close>: the outer loop, entered with the variables \<open>s0\<close>,
  comes to the head of the loop with the variables \<open>s\<close> after one pass for each element
  of \<open>ts\<close>, the variables at the head of the loop before these passes, in order.
\<close>

inductive traverses ::
  "'d suunto_common2_device \<Rightarrow> 'u dive_callback option \<Rightarrow> ('u, 'd) foreach_vars
     \<Rightarrow> ('u, 'd) foreach_vars list \<Rightarrow> ('u, 'd) foreach_vars \<Rightarrow> bool"
  for device callback s0
where
  traverses_start: "traverses device callback s0 [] s0"
| traverses_pass:
    "traverses device callback s0 ts s \<Longrightarrow> fe_remaining s \<noteq> 0
       \<Longrightarrow> foreach_dive device callback s = Some (Continue s')
       \<Longrightarrow> traverses device callback s0 (ts @ [s]) s'"

text \<open>A dive is incomplete when its next pointer is its own address.\<close>

definition incomplete_dive :: "'d suunto_common2_device \<Rightarrow> ('u, 'd) foreach_vars \<Rightarrow> bool" where
  "incomplete_dive device s \<longleftrightarrow> (\<exists>d. reads_dive device s d \<and> dr_next d = fe_current s)"




text \<open>
  The read command of Family B for \<open>len\<close> bytes at \<open>address\<close>, as the reader builds it, and
  the commands of a read of \<open>sz\<close> bytes at \<open>address\<close>, split in packages of at most
  \<open>SZ_PACKET\<close> bytes, each at its own address and with its own length.
\<close>

definition read_command :: "nat \<Rightarrow> nat \<Rightarrow> byte list" where
  "read_command address len =
     (let command = [0x05, 0x00, 0x03,
                     of_nat ((address div 2 ^ 8) mod 2 ^ 8),
                     of_nat (address mod 2 ^ 8),
                     of_nat len,
                     0]
      in command[6 := checksum_xor_uint8 (take 6 command) 0x00])"

function read_commands :: "nat \<Rightarrow> nat \<Rightarrow> byte list list" where
  "read_commands address sz =
     (if sz = 0 then []
      else
        let len = (if sz > SZ_PACKET then SZ_PACKET else sz)
        in read_command address len # read_commands (u32_add address len) (sz - len))"
  by pat_completeness auto
termination
  by (relation "measure (\<lambda>(address, sz). sz)") (auto simp: SZ_PACKET_def)

declare read_commands.simps [simp del]

text \<open>
  A packet function that keeps a log: it calls the packet function \<open>pk\<close> and appends the
  command it was given to the log.
\<close>

definition logging :: "'d packet_fn \<Rightarrow> ('d \<times> byte list list) packet_fn" where
  "logging pk command asize sz =
     (\<lambda>(port, log). case pk command asize sz port of (r, port') \<Rightarrow> (r, (port', log @ [command])))"

text \<open>
  The package that a pass of the inner loop of the Family-B extractor reads: the address it
  counts back from, which is the end of the ring buffer at the wrap point, and its length,
  which is at most \<open>SZ_PACKET\<close>, at most what lies between the begin of the ring buffer and
  that address, and at most what is left of the profile data.
\<close>

definition package_start :: "suunto_common2_layout \<Rightarrow> nat \<Rightarrow> nat" where
  "package_start l address = (if address = rb_profile_begin l then rb_profile_end l else address)"

definition package_len :: "suunto_common2_layout \<Rightarrow> nat \<Rightarrow> nat \<Rightarrow> nat \<Rightarrow> nat" where
  "package_len l remaining nbytes address =
     (let len = (if u32_add (rb_profile_begin l) SZ_PACKET > package_start l address
                 then u32_sub (package_start l address) (rb_profile_begin l) else SZ_PACKET)
      in if u32_add nbytes len > remaining then u32_sub remaining nbytes else len)"

section \<open>Devices for tests\<close>

text \<open>
  A transport for tests: the state is the list of the results that \<^verbatim>\<open>serial_read\<close> will
  return, in order.
\<close>

definition scripted_serial :: "(int \<times> byte list) list serial_ops" where
  "scripted_serial =
     \<lparr>serial_write = (\<lambda>command port. port),
      serial_drain = (\<lambda>port. port),
      serial_read = (\<lambda>n port. case port of [] \<Rightarrow> ((- 1, []), []) | r # rs \<Rightarrow> (r, rs))\<rparr>"

text \<open>
  A device for tests: it answers the read command \<^verbatim>\<open>B1 hi lo 00\<close> with the packet
  \<^verbatim>\<open>5A [16 bytes] chk\<close> of the memory image \<open>mem\<close>.  The state of the port is the command
  written last.
\<close>

definition atom2_simulator :: "(nat \<Rightarrow> byte) \<Rightarrow> byte list serial_ops" where
  "atom2_simulator mem =
     \<lparr>serial_write = (\<lambda>command port. command),
      serial_drain = (\<lambda>port. port),
      serial_read = (\<lambda>n port.
        case port of
          [c, hi, lo, z] \<Rightarrow>
            if c = 0xB1 \<and> n = 18 then
              let address = (unat hi * 256 + unat lo) * 16;
                  payload = map mem [address..<address + 16]
              in ((18, 0x5A # payload @ [oceanic_atom2_checksum payload 0]), [])
            else ((0, []), port)
        | _ \<Rightarrow> ((0, []), port))\<rparr>"

text \<open>
  A memory image with two dives: the logbook entries at \<open>0x0240\<close> and \<open>0x0248\<close>, with the
  profiles at \<open>0x0A50\<close> and \<open>0x0A60\<close>, one packet each.
\<close>

definition two_dives_image :: "nat \<Rightarrow> byte" where
  "two_dives_image =
     (\<lambda>a. 0)(0x44 := 0x40, 0x45 := 0x02, 0x46 := 0x48, 0x47 := 0x02,
             0x245 := 0xA5, 0x246 := 0x50, 0x247 := 0x0A,
             0x24D := 0xA6, 0x24E := 0x60, 0x24F := 0x0A,
             0xA50 := 0x11, 0xA60 := 0x22)"

text \<open>A memory image with an empty logbook: both pointers are the sentinel.\<close>

definition no_dives_image :: "nat \<Rightarrow> byte" where
  "no_dives_image = (\<lambda>a. 0)(0x44 := 0x30, 0x45 := 0x02, 0x46 := 0x30, 0x47 := 0x02)"

text \<open>
  A memory image with a full logbook: 256 entries, the oldest at \<open>0x0248\<close> and the newest
  at \<open>0x0240\<close>, which lie in the same packet.
\<close>

definition full_logbook_image :: "nat \<Rightarrow> byte" where
  "full_logbook_image = (\<lambda>a. 0)(0x44 := 0x48, 0x45 := 0x02, 0x46 := 0x40, 0x47 := 0x02)"


text \<open>
  A device for tests.  It answers the version command \<^verbatim>\<open>0F 00 00 0F\<close> with the bytes
  \<open>version\<close> and the read command \<^verbatim>\<open>05 00 03 hi lo count xor\<close> with \<open>count\<close> bytes of the
  memory image \<open>mem\<close>.  The state of the transport is the list of the commands received.
\<close>

definition d9_simulator :: "byte list \<Rightarrow> (nat \<Rightarrow> byte) \<Rightarrow> byte list list packet_fn" where
  "d9_simulator version mem command asize sz received =
     (if length command = 7 \<and> command ! 0 = 0x05 then
        let address = unat (command ! 3) * 256 + unat (command ! 4);
            count = unat (command ! 5);
            answer = take 6 command @ map mem [address..<address + count]
        in ((DC_STATUS_SUCCESS, answer @ [checksum_xor_uint8 answer 0]), received @ [command])
      else if command = [0x0F, 0x00, 0x00, 0x0F] then
        let answer = [0x0F, 0x00, 0x04] @ version
        in ((DC_STATUS_SUCCESS, answer @ [checksum_xor_uint8 answer 0]), received @ [command])
      else ((DC_STATUS_PROTOCOL, []), received @ [command]))"

text \<open>
  A layout for tests, with a ring buffer of 64 bytes, and a device with this layout that
  answers from a memory image.
\<close>

definition small_layout :: suunto_common2_layout where
  "small_layout =
     \<lparr>memsize = 0x8000, serial = 0x0023, rb_profile_begin = 0x0200, rb_profile_end = 0x0240\<rparr>"

definition small_device ::
  "(nat \<Rightarrow> byte) \<Rightarrow> byte list \<Rightarrow> byte list list suunto_common2_device" where
  "small_device mem fp =
     \<lparr>packet = Some (d9_simulator [0x0E, 1, 2, 3] mem), layout = small_layout, fingerprint = fp\<rparr>"

text \<open>
  A memory image whose ring buffer is full, with two dives of 32 bytes: the newer one at
  \<open>0x0220\<close> and the older one at \<open>0x0200\<close>.  The header at \<open>0x0190\<close> has \<open>last = 0x0220\<close>,
  \<open>count = 2\<close>, \<open>end = 0x0200\<close> and \<open>begin = 0x0200\<close>.  A byte that is not part of the header or
  of a pointer is the low byte of its address.
\<close>

definition two_dives_ring :: "nat \<Rightarrow> byte" where
  "two_dives_ring =
     (\<lambda>a. of_nat (a mod 256))
       (0x190 := 0x20, 0x191 := 0x02, 0x192 := 0x02, 0x193 := 0x00,
        0x194 := 0x00, 0x195 := 0x02, 0x196 := 0x00, 0x197 := 0x02,
        0x220 := 0x00, 0x221 := 0x02, 0x222 := 0x00, 0x223 := 0x02,
        0x200 := 0x20, 0x201 := 0x02, 0x202 := 0x20, 0x203 := 0x02)"

text \<open>The same image, but the next pointer of the newer dive is the dive's own address.\<close>

definition incomplete_dive_ring :: "nat \<Rightarrow> byte" where
  "incomplete_dive_ring = two_dives_ring(0x222 := 0x20)"

text \<open>The same image, but the \<open>end\<close> pointer of the header is \<open>0x0300\<close>, outside the ring buffer.\<close>

definition bad_end_ring :: "nat \<Rightarrow> byte" where
  "bad_end_ring = two_dives_ring(0x195 := 0x03)"

text \<open>
  A memory image whose ring buffer is full with one dive of 64 bytes at \<open>0x0200\<close>: the header
  has \<open>last = end = begin = 0x0200\<close> and \<open>count = 1\<close>, and both pointers of the dive are
  \<open>0x0200\<close>.
\<close>

definition one_dive_ring :: "nat \<Rightarrow> byte" where
  "one_dive_ring =
     (\<lambda>a. of_nat (a mod 256))
       (0x190 := 0x00, 0x191 := 0x02, 0x192 := 0x01, 0x193 := 0x00,
        0x194 := 0x00, 0x195 := 0x02, 0x196 := 0x00, 0x197 := 0x02,
        0x200 := 0x00, 0x201 := 0x02, 0x202 := 0x00, 0x203 := 0x02)"

text \<open>The commands that the test device has received when the outer loop is entered.\<close>

definition header_commands :: "byte list list" where
  "header_commands =
     [[0x0F, 0x00, 0x00, 0x0F], [0x05, 0x00, 0x03, 0x00, 0x23, 0x08, 0x2D],
      [0x05, 0x00, 0x03, 0x01, 0x90, 0x08, 0x9F]]"

text \<open>The buffer of the test layout once the whole ring buffer of an image is read.\<close>

definition ring_buffer :: "(nat \<Rightarrow> byte) \<Rightarrow> byte option list" where
  "ring_buffer mem = replicate 8 None @ map (\<lambda>a. Some (mem a)) [0x200..<0x240]"

text \<open>
  The commands that the test device has received when the whole ring buffer is read, the
  variables of the outer loop then, and what a pass has read then.
\<close>

definition ring_commands :: "byte list list" where
  "ring_commands = header_commands @ [[0x05, 0x00, 0x03, 0x02, 0x00, 0x40, 0x44]]"

definition loop_entry :: "nat \<Rightarrow> 'u \<Rightarrow> ('u, byte list list) foreach_vars" where
  "loop_entry current u =
     \<lparr>fe_model = 0x0E, fe_data = replicate 72 None, fe_remaining = 64, fe_available = 0,
      fe_current = current, fe_previous = 0x200, fe_address = 0x200, fe_offset = 72,
      fe_status = DC_STATUS_SUCCESS, fe_userdata = u, fe_port = header_commands\<rparr>"

definition ring_vars ::
  "(nat \<Rightarrow> byte) \<Rightarrow> nat \<Rightarrow> nat \<Rightarrow> nat \<Rightarrow> nat \<Rightarrow> dc_status \<Rightarrow> 'u
     \<Rightarrow> ('u, byte list list) foreach_vars" where
  "ring_vars mem remaining available current previous st u =
     \<lparr>fe_model = 0x0E, fe_data = ring_buffer mem, fe_remaining = remaining,
      fe_available = available, fe_current = current, fe_previous = previous,
      fe_address = 0x200, fe_offset = 8, fe_status = st, fe_userdata = u,
      fe_port = ring_commands\<rparr>"

definition ring_dive :: "(nat \<Rightarrow> byte) \<Rightarrow> nat \<Rightarrow> nat \<Rightarrow> nat \<Rightarrow> nat \<Rightarrow> byte list list dive_read" where
  "ring_dive mem sz nbytes prev next =
     \<lparr>dr_size = sz, dr_nbytes = nbytes, dr_address = 0x200, dr_offset = 8,
      dr_data = ring_buffer mem, dr_port = ring_commands, dr_prev = prev, dr_next = next\<rparr>"

text \<open>
  In these images, with no fingerprint set: the bytes that the callback gets for the dive at
  \<open>0x0220\<close> and for the dive at \<open>0x0200\<close>, which are the bytes after the two pointers, and
  the seven bytes at \<open>0x15\<close> from the start of each dive.
\<close>

definition no_fingerprint :: "byte list" where
  "no_fingerprint = [0, 0, 0, 0, 0, 0, 0]"

definition dive_0220 :: "byte list" where
  "dive_0220 =
     [0x24, 0x25, 0x26, 0x27, 0x28, 0x29, 0x2A, 0x2B, 0x2C, 0x2D, 0x2E, 0x2F, 0x30, 0x31, 0x32,
      0x33, 0x34, 0x35, 0x36, 0x37, 0x38, 0x39, 0x3A, 0x3B, 0x3C, 0x3D, 0x3E, 0x3F]"

definition fp_0220 :: "byte list" where
  "fp_0220 = [0x35, 0x36, 0x37, 0x38, 0x39, 0x3A, 0x3B]"

definition dive_0200 :: "byte list" where
  "dive_0200 =
     [0x04, 0x05, 0x06, 0x07, 0x08, 0x09, 0x0A, 0x0B, 0x0C, 0x0D, 0x0E, 0x0F, 0x10, 0x11, 0x12,
      0x13, 0x14, 0x15, 0x16, 0x17, 0x18, 0x19, 0x1A, 0x1B, 0x1C, 0x1D, 0x1E, 0x1F]"

definition fp_0200 :: "byte list" where
  "fp_0200 = [0x15, 0x16, 0x17, 0x18, 0x19, 0x1A, 0x1B]"

text \<open>
  The test device again, with a packet function that keeps a log of the commands besides.
\<close>

definition logged_device ::
  "(nat \<Rightarrow> byte) \<Rightarrow> (byte list list \<times> byte list list) suunto_common2_device" where
  "logged_device mem =
     \<lparr>packet = Some (logging (d9_simulator [0x0E, 1, 2, 3] mem)), layout = small_layout,
      fingerprint = no_fingerprint\<rparr>"

text \<open>Family-B callbacks that keep the dives they are given: one goes on, one stops.\<close>

definition keep_dives :: "(byte list \<times> byte list) list dive_callback" where
  "keep_dives dive fp log = (True, log @ [(dive, fp)])"

definition stop_at_dive :: "(byte list \<times> byte list) list dive_callback" where
  "stop_at_dive dive fp log = (False, log @ [(dive, fp)])"

section \<open>Properties\<close>

subsection \<open>Packet transfer\<close>

lemma transfer_retry_step:
  "transfer_retry pk c a s n p =
    (case suunto_common2_attempt pk c s a p of
       ((rc, a'), p') \<Rightarrow>
         if (rc = DC_STATUS_TIMEOUT \<or> rc = DC_STATUS_PROTOCOL) \<and> n < MAXRETRIES
         then transfer_retry pk c a' s (n + 1) p' else ((rc, a'), p'))"
  by (subst transfer_retry.simps)
     (auto simp: Let_def suunto_common2_attempt_def split: prod.splits)

lemma transfer_retry_three:
  "transfer_retry pk c a s 0 p =
     three_attempts (\<lambda>rc. rc = DC_STATUS_TIMEOUT \<or> rc = DC_STATUS_PROTOCOL)
       (suunto_common2_attempt pk c s) a p"
proof -
  have 2: "transfer_retry pk c a' s (Suc (Suc 0)) p' = suunto_common2_attempt pk c s a' p'"
    for a' p'
    by (subst transfer_retry_step) (simp add: MAXRETRIES_def split: prod.splits)
  have 1: "transfer_retry pk c a' s (Suc 0) p' =
       (case suunto_common2_attempt pk c s a' p' of
          ((rc2, a2), p2) \<Rightarrow>
            if rc2 = DC_STATUS_TIMEOUT \<or> rc2 = DC_STATUS_PROTOCOL
            then suunto_common2_attempt pk c s a2 p2 else ((rc2, a2), p2))" for a' p'
    by (subst transfer_retry_step) (simp add: MAXRETRIES_def 2 split: prod.splits)
  show ?thesis
    by (subst transfer_retry_step) (simp add: MAXRETRIES_def 1 three_attempts_def split: prod.splits)
qed

lemma transfer_attempts_step:
  "transfer_attempts ops c a h i p =
    (case oceanic_atom2_attempt ops c h a p of
       ((rc, a'), p') \<Rightarrow>
         if rc = OCEANIC_ERROR_TIMEOUT \<and> i < MAXRETRIES
         then transfer_attempts ops c a' h (i + 1) p' else ((rc, a'), p'))"
  by (subst transfer_attempts.simps)
     (simp add: Let_def oceanic_atom2_attempt_def oceanic_atom2_send_def split: prod.splits)

lemma transfer_attempts_three:
  "transfer_attempts ops c a h 0 p =
     three_attempts (\<lambda>rc. rc = OCEANIC_ERROR_TIMEOUT) (oceanic_atom2_attempt ops c h) a p"
proof -
  have 2: "transfer_attempts ops c a' h (Suc (Suc 0)) p' = oceanic_atom2_attempt ops c h a' p'"
    for a' p'
    by (subst transfer_attempts_step) (simp add: MAXRETRIES_def split: prod.splits)
  have 1: "transfer_attempts ops c a' h (Suc 0) p' =
       (case oceanic_atom2_attempt ops c h a' p' of
          ((rc2, a2), p2) \<Rightarrow>
            if rc2 = OCEANIC_ERROR_TIMEOUT
            then oceanic_atom2_attempt ops c h a2 p2 else ((rc2, a2), p2))" for a' p'
    by (subst transfer_attempts_step) (simp add: MAXRETRIES_def 2 split: prod.splits)
  show ?thesis
    by (subst transfer_attempts_step)
       (simp add: MAXRETRIES_def 1 three_attempts_def split: prod.splits)
qed

text \<open>
  C3, as stated, fails for Family A.  The handshake command is sent on a transport whose
  first answer has a wrong header byte and whose second answer is valid.  The transfer
  returns the protocol error after the first attempt: the second answer is still unread.
\<close>

theorem oceanic_protocol_error_not_retried:
  "oceanic_atom2_transfer scripted_serial [0xA8, 0x99, 0x00] [0, 0, 0] True
     [(3, [0x00, 0xA5, 0xA5]), (3, [0xA5, 0xA5, 0xA5])]
   = Some ((OCEANIC_ERROR_PROTOCOL, [0x00, 0xA5, 0xA5]), [(3, [0xA5, 0xA5, 0xA5])])"
  by (simp add: oceanic_atom2_transfer_def transfer_attempts.simps scripted_serial_def
      oceanic_atom2_send_def store_def Let_def)

text \<open>
  C3, amended.  The Family-B transfer makes at most three attempts (\<open>MAXRETRIES = 2\<close>
  retries): an attempt that ends with a timeout or a protocol error is retried, any other
  status (success, an I/O error) is returned at once, and the status of the third
  attempt is returned whatever it is.  The Family-A transfer makes at most three attempts
  too, but it retries only a timeout (a short read): an I/O error and a protocol error (a
  wrong header byte or checksum) are returned at once, and when the retries are
  exhausted the timeout of the third attempt is returned.
\<close>

theorem transfer_three_attempts:
  "suunto_common2_transfer device command answer sz port =
     (if length answer < sz + 4 then None
      else case packet device of
        None \<Rightarrow> Some ((DC_STATUS_UNSUPPORTED, answer), port)
      | Some pk \<Rightarrow>
          Some (three_attempts (\<lambda>rc. rc = DC_STATUS_TIMEOUT \<or> rc = DC_STATUS_PROTOCOL)
                  (suunto_common2_attempt pk command sz) answer port))
   \<and>
   oceanic_atom2_transfer ops command' answer' handshake port' =
     (if length answer' < 2 then None
      else Some (three_attempts (\<lambda>rc. rc = OCEANIC_ERROR_TIMEOUT)
                   (oceanic_atom2_attempt ops command' handshake) answer' port'))"
  by (simp add: suunto_common2_transfer_def oceanic_atom2_transfer_def
      transfer_retry_three transfer_attempts_three not_le split: option.splits)

subsection \<open>Family A: the number of callbacks\<close>

lemmas atom2_eval =
  oceanic_atom2_read_dives_def oceanic_atom2_read_memory_def oceanic_atom2_read_ringbuffer_def
  read_memory_packages.simps read_dives_entries.simps oceanic_atom2_transfer_def
  transfer_attempts.simps oceanic_atom2_send_def atom2_simulator_def
  zero_array_slice_def store_def Let_def
  OCEANIC_ATOM2_PACKET_SIZE_def RB_LOGBOOK_EMPTY_def RB_LOGBOOK_BEGIN_def RB_LOGBOOK_END_def
  RB_PROFILE_BEGIN_def RB_PROFILE_END_def RB_LOGBOOK_DISTANCE_def RB_PROFILE_DISTANCE_def
  ringbuffer_distance_def u32_sub_def PT_LOGBOOK_FIRST_def PT_LOGBOOK_LAST_def
  PT_PROFILE_FIRST_def PT_PROFILE_LAST_def oceanic_atom2_checksum_def MAXRETRIES_def

lemma read_dives_entries_log:
  "read_dives_entries ops (Some (recording cb)) logbooks current i n (log, u) port
     = Some ((OCEANIC_SUCCESS, (log', u')), port')
   \<Longrightarrow> length log' = length log + (n - i)"
proof (induction "n - i" arbitrary: i current log u port)
  case 0
  then show ?case
    by (simp add: read_dives_entries.simps)
next
  case (Suc k)
  then have less: "i < n" and k: "k = n - (i + 1)"
    by simp_all
  from Suc.prems less obtain entry bytes port1 where
    rest: "read_dives_entries ops (Some (recording cb)) logbooks
              (current - OCEANIC_ATOM2_PACKET_SIZE div 2) (i + 1) n
              (snd (recording cb (entry @ bytes) (log, u))) port1
            = Some ((OCEANIC_SUCCESS, (log', u')), port')"
    by (subst (asm) read_dives_entries.simps)
       (auto simp: Let_def split: option.splits prod.splits if_splits)
  obtain r u1 where cb: "cb (entry @ bytes) u = (r, u1)"
    by (cases "cb (entry @ bytes) u")
  have s: "snd (recording cb (entry @ bytes) (log, u)) = (log @ [entry @ bytes], u1)"
    by (simp add: recording_def cb)
  have "length log' = length (log @ [entry @ bytes]) + (n - (i + 1))"
    using Suc.hyps(1) [OF k] rest unfolding s by blast
  with less show ?case by simp
qed

lemma logbook_distance_same: "RB_LOGBOOK_DISTANCE a a = 0"
  by (simp add: RB_LOGBOOK_DISTANCE_def ringbuffer_distance_def)

text \<open>
  The callbacks of a traversal that returns success.  When the pointers block has been read:
  if both logbook pointers are the empty sentinel \<open>0x0230\<close>, the operation returns success
  and the callback is not invoked (the log of a recording callback stays empty); otherwise,
  if the operation returns success, the number of callbacks is
  \<open>ringbuffer_distance first last / (packet_size / 2) + 1\<close>, which is one callback when
  \<open>first = last\<close>.
\<close>

theorem read_dives_callbacks:
  assumes "oceanic_atom2_read_memory ops 0x0040 OCEANIC_ATOM2_PACKET_SIZE port
             = Some ((OCEANIC_SUCCESS, pointers), port1)"
  shows "(PT_LOGBOOK_FIRST pointers = RB_LOGBOOK_EMPTY \<and> PT_LOGBOOK_LAST pointers = RB_LOGBOOK_EMPTY
            \<longrightarrow> oceanic_atom2_read_dives ops (Some (recording cb)) ([], u) port
                  = Some ((OCEANIC_SUCCESS, ([], u)), port1))
       \<and> (\<forall>log u' port'.
            \<not> (PT_LOGBOOK_FIRST pointers = RB_LOGBOOK_EMPTY \<and> PT_LOGBOOK_LAST pointers = RB_LOGBOOK_EMPTY)
            \<and> oceanic_atom2_read_dives ops (Some (recording cb)) ([], u) port
                  = Some ((OCEANIC_SUCCESS, (log, u')), port')
            \<longrightarrow> length log =
                  RB_LOGBOOK_DISTANCE (PT_LOGBOOK_FIRST pointers) (PT_LOGBOOK_LAST pointers)
                    div (OCEANIC_ATOM2_PACKET_SIZE div 2) + 1
                \<and> (PT_LOGBOOK_FIRST pointers = PT_LOGBOOK_LAST pointers \<longrightarrow> length log = 1))"
proof (intro conjI allI impI)
  assume "PT_LOGBOOK_FIRST pointers = RB_LOGBOOK_EMPTY \<and> PT_LOGBOOK_LAST pointers = RB_LOGBOOK_EMPTY"
  with assms show "oceanic_atom2_read_dives ops (Some (recording cb)) ([], u) port
                  = Some ((OCEANIC_SUCCESS, ([], u)), port1)"
    by (simp add: oceanic_atom2_read_dives_def)
next
  fix log u' port'
  assume a: "\<not> (PT_LOGBOOK_FIRST pointers = RB_LOGBOOK_EMPTY \<and> PT_LOGBOOK_LAST pointers = RB_LOGBOOK_EMPTY)
            \<and> oceanic_atom2_read_dives ops (Some (recording cb)) ([], u) port
                  = Some ((OCEANIC_SUCCESS, (log, u')), port')"
  let ?n = "RB_LOGBOOK_DISTANCE (PT_LOGBOOK_FIRST pointers) (PT_LOGBOOK_LAST pointers)
                    div (OCEANIC_ATOM2_PACKET_SIZE div 2) + 1"
  from a assms obtain logbooks current port2 where
    "read_dives_entries ops (Some (recording cb)) logbooks current 0 ?n ([], u) port2
       = Some ((OCEANIC_SUCCESS, (log, u')), port')"
    by (auto simp: oceanic_atom2_read_dives_def Let_def split: option.splits prod.splits if_splits)
  from read_dives_entries_log [OF this]
  show n: "length log = ?n" by simp
  show "length log = 1" if "PT_LOGBOOK_FIRST pointers = PT_LOGBOOK_LAST pointers"
    using n that by (simp add: logbook_distance_same)
qed

lemma two_dives_pointers:
  "oceanic_atom2_read_memory (atom2_simulator two_dives_image) 0x0040 OCEANIC_ATOM2_PACKET_SIZE []
     = Some ((OCEANIC_SUCCESS, [0, 0, 0, 0, 0x40, 0x02, 0x48, 0x02, 0, 0, 0, 0, 0, 0, 0, 0]), [])"
  by (simp add: atom2_eval two_dives_image_def)

lemma no_dives_pointers:
  "oceanic_atom2_read_memory (atom2_simulator no_dives_image) 0x0040 OCEANIC_ATOM2_PACKET_SIZE []
     = Some ((OCEANIC_SUCCESS, [0, 0, 0, 0, 0x30, 0x02, 0x30, 0x02, 0, 0, 0, 0, 0, 0, 0, 0]), [])"
  by (simp add: atom2_eval no_dives_image_def)

lemma two_dives_recorded:
  "oceanic_atom2_read_dives (atom2_simulator two_dives_image)
       (Some (recording (\<lambda>dive u. (True, u)))) ([], ()) []
     = Some ((OCEANIC_SUCCESS,
         ([[0, 0, 0, 0, 0, 0xA6, 0x60, 0x0A, 0x22, 0, 0, 0, 0, 0, 0, 0, 0, 0, 0, 0, 0, 0, 0, 0],
           [0, 0, 0, 0, 0, 0xA5, 0x50, 0x0A, 0x11, 0, 0, 0, 0, 0, 0, 0, 0, 0, 0, 0, 0, 0, 0, 0]],
          ())), [])"
  by (simp add: atom2_eval two_dives_image_def recording_def)

text \<open>
  The theorem at a memory image with an empty logbook and at one with two dives.
\<close>

theorem read_dives_callbacks_witness:
  "oceanic_atom2_read_dives (atom2_simulator no_dives_image)
       (Some (recording (\<lambda>dive u. (True, u)))) ([], ()) []
     = Some ((OCEANIC_SUCCESS, ([], ())), [])
   \<and> oceanic_atom2_read_dives (atom2_simulator two_dives_image)
       (Some (recording (\<lambda>dive u. (True, u)))) ([], ()) []
     = Some ((OCEANIC_SUCCESS,
         ([[0, 0, 0, 0, 0, 0xA6, 0x60, 0x0A, 0x22, 0, 0, 0, 0, 0, 0, 0, 0, 0, 0, 0, 0, 0, 0, 0],
           [0, 0, 0, 0, 0, 0xA5, 0x50, 0x0A, 0x11, 0, 0, 0, 0, 0, 0, 0, 0, 0, 0, 0, 0, 0, 0, 0]],
          ())), [])
   \<and> (2::nat) = RB_LOGBOOK_DISTANCE 0x0240 0x0248 div (OCEANIC_ATOM2_PACKET_SIZE div 2) + 1"
  using read_dives_callbacks [OF no_dives_pointers, of "\<lambda>dive u. (True, u)" "()"]
        read_dives_callbacks [OF two_dives_pointers, of "\<lambda>dive u. (True, u)" "()"]
        two_dives_recorded
  by (simp add: PT_LOGBOOK_FIRST_def PT_LOGBOOK_LAST_def RB_LOGBOOK_EMPTY_def)

text \<open>
  C6, at a full logbook.  The claim gives \<open>ringbuffer_distance first last / (packet_size / 2) + 1\<close>
  callbacks whenever the pointers are not the empty sentinel.  With \<open>first = 0x0248\<close> and
  \<open>last = 0x0240\<close> the logbook holds 256 entries, and every read of the device succeeds.
  The two pointers lie in the same packet, so the length of the pages to read is computed as
  one packet of 16 bytes, and only this packet is read into the array \<^verbatim>\<open>logbooks\<close> of 2048
  bytes.  The pointer \<^verbatim>\<open>current\<close> starts at index \<open>8 + 255 * 8 = 2048\<close>, which is past the
  end of the array: the first pass of the loop reads outside the array, and the operation has
  no result.  No run with 256 callbacks exists.
\<close>

theorem read_dives_full_logbook:
  "oceanic_atom2_read_memory (atom2_simulator full_logbook_image) 0x0040 OCEANIC_ATOM2_PACKET_SIZE []
     = Some ((OCEANIC_SUCCESS, [0, 0, 0, 0, 0x48, 0x02, 0x40, 0x02, 0, 0, 0, 0, 0, 0, 0, 0]), [])
   \<and> RB_LOGBOOK_DISTANCE 0x0248 0x0240 div (OCEANIC_ATOM2_PACKET_SIZE div 2) + 1 = 256
   \<and> oceanic_atom2_read_ringbuffer (atom2_simulator full_logbook_image) 0x0240 16
        RB_LOGBOOK_BEGIN RB_LOGBOOK_END []
      = Some ((OCEANIC_SUCCESS, [0, 0, 0, 0, 0, 0, 0, 0, 0, 0, 0, 0, 0, 0, 0, 0]), [])
   \<and> zero_array_slice (RB_LOGBOOK_END - RB_LOGBOOK_BEGIN)
        [0, 0, 0, 0, 0, 0, 0, 0, 0, 0, 0, 0, 0, 0, 0, 0] (8 + 255 * 8) 8 = None
   \<and> oceanic_atom2_read_dives (atom2_simulator full_logbook_image)
        (Some (recording (\<lambda>dive u. (True, u)))) ([], ()) []
      = None"
  by (simp add: atom2_eval full_logbook_image_def)

subsection \<open>Fingerprint\<close>

text \<open>
  C10.  For every call of the Family-B set-fingerprint operation: a size of 0 resets the
  stored fingerprint to all zero bytes and returns success; a size equal to the
  fingerprint width copies the given bytes into the stored fingerprint and returns
  success; any other nonzero size returns InvalidArgs and leaves the stored fingerprint
  (the whole device) unchanged.
\<close>

theorem set_fingerprint_cases:
  "suunto_common2_device_set_fingerprint device data =
     (if length data = 0 then
        (DC_STATUS_SUCCESS, device\<lparr>fingerprint := replicate (length (fingerprint device)) 0\<rparr>)
      else if length data = length (fingerprint device) then
        (DC_STATUS_SUCCESS, device\<lparr>fingerprint := data\<rparr>)
      else (DC_STATUS_INVALIDARGS, device))"
  by (simp add: suunto_common2_device_set_fingerprint_def Let_def)

subsection \<open>Family B: the passes of the outer loop\<close>

text \<open>
  What a pass of the outer loop does once it has read a dive, and what the passes before a
  point of the traversal leave in the variables.
\<close>

lemma foreach_dive_reads:
  assumes "reads_dive device s d"
  shows "foreach_dive device callback s =
    (if dr_next d \<noteq> fe_current s then
       (case buf_slice (dr_data d) (dive_pos d + fp_offset_of (fe_model s))
               (length (fingerprint device)) of
          None \<Rightarrow> None
        | Some fp \<Rightarrow>
            if fp = fingerprint device
            then Some (Return DC_STATUS_SUCCESS (fe_userdata s) (dr_port d))
            else
              (case callback of
                 None \<Rightarrow> Some (Continue (next_vars s d))
               | Some cb \<Rightarrow>
                   (case buf_slice (dr_data d) (dive_pos d + 4) (dr_size d - 4) of
                      None \<Rightarrow> None
                    | Some dive \<Rightarrow>
                        (case cb dive fp (fe_userdata s) of
                           (continue, userdata) \<Rightarrow>
                             if \<not> continue
                             then Some (Return DC_STATUS_SUCCESS userdata (dr_port d))
                             else Some (Continue ((next_vars s d)\<lparr>fe_userdata := userdata\<rparr>))))))
     else Some (Continue ((next_vars s d)\<lparr>fe_status := DC_STATUS_DATAFORMAT\<rparr>)))"
proof -
  from assms have "map_option (\<lambda>t. (array_uint16_le (t ! 0) (t ! 1), array_uint16_le (t ! 2) (t ! 3)))
       (buf_slice (dr_data d) (dive_pos d) 4) = Some (dr_prev d, dr_next d)"
    unfolding reads_dive_def by blast
  then obtain trailer where
    t: "buf_slice (dr_data d) (dr_offset d + u32_sub (dr_nbytes d) (dr_size d)) 4 = Some trailer"
    and pn: "array_uint16_le (trailer ! 0) (trailer ! 1) = dr_prev d"
            "array_uint16_le (trailer ! 2) (trailer ! 3) = dr_next d"
    unfolding map_option_eq_Some dive_pos_def prod.inject by (elim exE conjE)
  from assms have
    sz: "RB_PROFILE_DISTANCE_B (layout device) (fe_current s) (fe_previous s) True = dr_size d"
    and b: "\<not> (dr_size d < 4 \<or> dr_size d > fe_remaining s)"
    and pk: "foreach_packages device (dr_size d) (fe_remaining s) (fe_available s) (fe_address s)
       (fe_offset s) (fe_data s) (fe_port s)
       = Some (DC_STATUS_SUCCESS, dr_nbytes d, dr_address d, dr_offset d, dr_data d, dr_port d)"
    and r: "\<not> (dr_prev d < rb_profile_begin (layout device) \<or> dr_prev d \<ge> rb_profile_end (layout device) \<or>
             dr_next d < rb_profile_begin (layout device) \<or> dr_next d \<ge> rb_profile_end (layout device))"
    and l: "\<not> (dr_next d \<noteq> fe_previous s \<and> dr_next d \<noteq> fe_current s)"
    unfolding reads_dive_def by auto
  show ?thesis
  proof (cases "dr_next d = fe_current s")
    case True
    with b pk t r pn(2) show ?thesis
      unfolding foreach_dive_def Let_def sz next_vars_def pn(1) [symmetric]
      by simp
  next
    case False
    with l have "dr_next d = fe_previous s"
      by simp
    with False b pk t r pn(2) show ?thesis
      unfolding foreach_dive_def Let_def sz next_vars_def dive_pos_def fp_offset_of_def
        pn(1) [symmetric]
      by simp
  qed
qed

lemma traverses_dives:
  "traverses device callback s0 ts s \<Longrightarrow>
     foreach_dives device callback s0 = foreach_dives device callback s"
proof (induction rule: traverses.induct)
  case traverses_start
  show ?case ..
next
  case (traverses_pass ts s s')
  then show ?case
    by (simp add: foreach_dives.simps [of device callback s])
qed

lemma foreach_traverses:
  assumes "foreach_begin device alloc userdata port = Some (Continue s0)"
    and "traverses device callback s0 ts s"
  shows "suunto_common2_device_foreach device alloc callback userdata port
           = foreach_dives device callback s"
  using assms by (simp add: suunto_common2_device_foreach_def traverses_dives)

lemma foreach_dives_return:
  "fe_remaining s \<noteq> 0 \<Longrightarrow> foreach_dive device callback s = Some (Return rc u p)
     \<Longrightarrow> foreach_dives device callback s = Some ((rc, u), p)"
  by (simp add: foreach_dives.simps [of device callback s])

lemma reads_dive_remaining: "reads_dive device s d \<Longrightarrow> fe_remaining s \<noteq> 0"
  by (auto simp: reads_dive_def)


lemma foreach_dive_continue_reads:
  assumes "foreach_dive device callback s = Some (Continue s')"
  shows "\<exists>d. reads_dive device s d"
proof -
  let ?sz = "RB_PROFILE_DISTANCE_B (layout device) (fe_current s) (fe_previous s) True"
  from assms have b: "4 \<le> ?sz" "?sz \<le> fe_remaining s"
    by (auto simp: foreach_dive_def Let_def split: if_splits)
  with assms obtain nbytes address offset data port where
    pk: "foreach_packages device ?sz (fe_remaining s) (fe_available s) (fe_address s)
           (fe_offset s) (fe_data s) (fe_port s)
         = Some (DC_STATUS_SUCCESS, nbytes, address, offset, data, port)"
    by (auto simp: foreach_dive_def Let_def split: if_splits option.splits)
  with assms b obtain trailer where
    t: "buf_slice data (offset + u32_sub nbytes ?sz) 4 = Some trailer"
    by (auto simp: foreach_dive_def Let_def split: if_splits option.splits)
  let ?prev = "array_uint16_le (trailer ! 0) (trailer ! 1)"
  let ?next = "array_uint16_le (trailer ! 2) (trailer ! 3)"
  from assms b pk t have
    r: "rb_profile_begin (layout device) \<le> ?prev" "?prev < rb_profile_end (layout device)"
       "rb_profile_begin (layout device) \<le> ?next" "?next < rb_profile_end (layout device)"
    and l: "?next = fe_previous s \<or> ?next = fe_current s"
    by (auto simp: foreach_dive_def Let_def split: if_splits)
  let ?d = "\<lparr>dr_size = ?sz, dr_nbytes = nbytes, dr_address = address, dr_offset = offset,
             dr_data = data, dr_port = port, dr_prev = ?prev, dr_next = ?next\<rparr>"
  have "reads_dive device s ?d"
    unfolding reads_dive_def dive_pos_def using b pk t r l by simp
  then show ?thesis ..
qed

lemma foreach_dive_status:
  assumes "foreach_dive device callback s = Some (Continue s')"
  shows "fe_status s' = (if incomplete_dive device s then DC_STATUS_DATAFORMAT else fe_status s)"
proof (cases "incomplete_dive device s")
  case True
  then obtain d where d: "reads_dive device s d" "dr_next d = fe_current s"
    by (auto simp: incomplete_dive_def)
  from assms foreach_dive_reads [OF d(1), of callback] d(2) True show ?thesis
    by auto
next
  case False
  from foreach_dive_continue_reads [OF assms] obtain d where d: "reads_dive device s d" ..
  with False have n: "dr_next d \<noteq> fe_current s"
    by (auto simp: incomplete_dive_def)
  from assms foreach_dive_reads [OF d, of callback] n False show ?thesis
    by (auto simp: next_vars_def split: option.splits if_splits prod.splits)
qed

lemma traverses_status:
  "traverses device callback s0 ts s \<Longrightarrow>
     fe_status s = (if \<exists>t \<in> set ts. incomplete_dive device t then DC_STATUS_DATAFORMAT
                    else fe_status s0)"
proof (induction rule: traverses.induct)
  case traverses_start
  show ?case by simp
next
  case (traverses_pass ts s s')
  from foreach_dive_status [OF traverses_pass.hyps(3)] traverses_pass.IH show ?case
    by auto
qed

lemma foreach_dive_model:
  "foreach_dive device callback s = Some (Continue s') \<Longrightarrow> fe_model s' = fe_model s"
  by (auto simp: foreach_dive_def Let_def split: if_splits option.splits prod.splits)

lemma traverses_model: "traverses device callback s0 ts s \<Longrightarrow> fe_model s = fe_model s0"
  by (induction rule: traverses.induct) (auto dest: foreach_dive_model)

lemma foreach_begin_status:
  "foreach_begin device alloc userdata port = Some (Continue s0)
     \<Longrightarrow> fe_status s0 = DC_STATUS_SUCCESS"
  by (auto simp: foreach_begin_def Let_def split: if_splits option.splits prod.splits)

lemma reads_dive_next:
  "reads_dive device s d \<Longrightarrow> reads_dive device s d' \<Longrightarrow> dr_next d' = dr_next d"
  by (auto simp: reads_dive_def dive_pos_def)

lemma incomplete_dive_next:
  "reads_dive device s d \<Longrightarrow> incomplete_dive device s \<longleftrightarrow> dr_next d = fe_current s"
  by (auto simp: incomplete_dive_def dest: reads_dive_next)


subsection \<open>Family B: the reader and the packages of a dive\<close>

text \<open>
  The commands of the reader, with a packet function that keeps a log, and one pass of the
  inner loop of the extractor.
\<close>

lemma length_store [simp]: "length (store buf bytes) = length buf"
  by (simp add: store_def)

lemma read_packages_command:
  "[0x05, 0x00, 0x03, of_nat ((address div 2 ^ 8) mod 2 ^ 8), of_nat (address mod 2 ^ 8),
    of_nat len, 0]
     [6 := checksum_xor_uint8
             (take 6 [0x05, 0x00, 0x03, of_nat ((address div 2 ^ 8) mod 2 ^ 8),
                      of_nat (address mod 2 ^ 8), of_nat len, 0]) 0x00]
   = read_command address len"
  by (simp add: read_command_def Let_def)

lemma transfer_logging:
  assumes "packet device = Some (logging pk)"
    and "fst (fst (pk command (length answer) n port)) = DC_STATUS_SUCCESS"
    and "n + 4 \<le> length answer"
  shows "\<exists>answer' port'. length answer' = length answer \<and>
           suunto_common2_transfer device command answer n (port, log)
             = Some ((DC_STATUS_SUCCESS, answer'), (port', log @ [command]))"
proof -
  obtain bytes port' where pk: "pk command (length answer) n port = ((DC_STATUS_SUCCESS, bytes), port')"
    using assms(2) by (cases "pk command (length answer) n port") auto
  have "transfer_retry (logging pk) command answer n 0 (port, log)
          = ((DC_STATUS_SUCCESS, store answer bytes), (port', log @ [command]))"
    by (subst transfer_retry.simps) (simp add: logging_def pk Let_def)
  with assms(1,3) show ?thesis
    by (simp add: suunto_common2_transfer_def)
qed

lemma read_packages_logging:
  assumes "packet device = Some (logging pk)"
    and "\<forall>a n p. fst (fst (pk (read_command a n) (n + 7) n p)) = DC_STATUS_SUCCESS"
  shows "\<exists>data' port'.
           read_packages device address sz nbytes data (port, log)
             = Some ((DC_STATUS_SUCCESS, data'),
                     (port', log @ read_commands address (sz - nbytes))) \<and>
           length data' = length data + (sz - nbytes)"
proof (induction "sz - nbytes" arbitrary: address nbytes data port log rule: less_induct)
  case less
  show ?case
  proof (cases "nbytes < sz")
    case False
    then show ?thesis
      by (subst read_packages.simps, subst read_commands.simps) simp
  next
    case True
    define len where "len = (if sz - nbytes > SZ_PACKET then SZ_PACKET else sz - nbytes)"
    from True have len: "0 < len" "len \<le> sz - nbytes"
      by (auto simp: len_def SZ_PACKET_def)
    from assms(2) have "fst (fst (pk (read_command address len)
              (length (replicate (len + 7) (0::byte))) len port)) = DC_STATUS_SUCCESS"
      by simp
    from transfer_logging [OF assms(1) this, of log]
    obtain answer' port1 where
      a: "length answer' = len + 7"
      and t: "suunto_common2_transfer device (read_command address len)
                (replicate (len + 7) 0) len (port, log)
              = Some ((DC_STATUS_SUCCESS, answer'), (port1, log @ [read_command address len]))"
      by auto
    have "sz - (nbytes + len) < sz - nbytes"
      using len True by simp
    from less [OF this, of "u32_add address len" "data @ take len (drop 6 answer')" port1
                 "log @ [read_command address len]"]
    obtain data' port' where
      r: "read_packages device (u32_add address len) sz (nbytes + len)
            (data @ take len (drop 6 answer')) (port1, log @ [read_command address len])
          = Some ((DC_STATUS_SUCCESS, data'),
                  (port', (log @ [read_command address len])
                            @ read_commands (u32_add address len) (sz - (nbytes + len))))"
      and l: "length data' = length (data @ take len (drop 6 answer')) + (sz - (nbytes + len))"
      by blast
    have c: "read_commands address (sz - nbytes)
               = read_command address len # read_commands (u32_add address len) (sz - (nbytes + len))"
      using True by (subst read_commands.simps) (simp add: len_def Let_def)
    have "read_packages device address sz nbytes data (port, log)
            = Some ((DC_STATUS_SUCCESS, data'),
                    (port', log @ read_commands address (sz - nbytes)))"
      apply (subst read_packages.simps)
      apply (simp only: True if_True Let_def)
      apply (simp only: len_def [symmetric] read_packages_command t option.case prod.case)
      apply (simp add: r c)
      done
    moreover have "length data' = length data + (sz - nbytes)"
      using l a len by simp
    ultimately show ?thesis
      by blast
  qed
qed

lemma length_read_commands:
  "length (read_commands address sz) = (sz + SZ_PACKET - 1) div SZ_PACKET"
proof (induction address sz rule: read_commands.induct)
  case (1 address sz)
  show ?case
  proof (cases "sz = 0")
    case True
    then show ?thesis
      by (subst read_commands.simps) (simp add: SZ_PACKET_def)
  next
    case False
    show ?thesis
    proof (cases "sz > SZ_PACKET")
      case True
      from "1.IH" [OF False refl] True
      have "length (read_commands (u32_add address SZ_PACKET) (sz - SZ_PACKET))
              = (sz - SZ_PACKET + SZ_PACKET - 1) div SZ_PACKET"
        by simp
      moreover have "length (read_commands address sz)
              = Suc (length (read_commands (u32_add address SZ_PACKET) (sz - SZ_PACKET)))"
        using False True by (subst read_commands.simps) (simp add: Let_def)
      ultimately show ?thesis
        using True by (simp add: SZ_PACKET_def)
    next
      case small: False
      have "read_commands (u32_add address sz) 0 = []"
        by (subst read_commands.simps) simp
      then have "length (read_commands address sz) = 1"
        using False small by (subst read_commands.simps) (simp add: Let_def)
      with False small show ?thesis
        by (simp add: SZ_PACKET_def)
    qed
  qed
qed

lemma those_map_Some: "those (map Some xs) = Some xs"
  by (induction xs) auto

lemma buf_write_slice:
  assumes "buf_write data (off - extra) bytes = Some data'"
    and "extra \<le> off" and "extra \<le> length bytes" and "len = length bytes - extra"
  shows "buf_slice data' off len = Some (drop extra bytes)"
proof -
  from assms(1) have b: "off - extra + length bytes \<le> length data"
    and d: "data' = take (off - extra) data @ map Some bytes
                      @ drop (off - extra + length bytes) data"
    by (auto simp: buf_write_def split: if_splits)
  define pre where "pre = take (off - extra) data"
  define rest where "rest = drop (off - extra + length bytes) data"
  from b have l: "length pre = off - extra"
    by (simp add: pre_def)
  with assms(2) have o: "off = length pre + extra"
    by simp
  have d': "data' = pre @ (map Some bytes @ rest)"
    by (simp add: d pre_def rest_def)
  have "drop off data' = drop extra (map Some bytes @ rest)"
    unfolding d' o by simp
  also have "\<dots> = map Some (drop extra bytes) @ rest"
    using assms(3) by (simp add: drop_map)
  finally have "take len (drop off data') = map Some (drop extra bytes)"
    using assms(4) by simp
  moreover have "off + len \<le> length data'"
    using b assms(2-4) unfolding d by simp
  ultimately show ?thesis
    by (simp add: buf_slice_def those_map_Some)
qed

lemma foreach_packages_step:
  assumes "nbytes < sz"
  shows "foreach_packages device sz remaining nbytes address offset data port =
     (let len = package_len (layout device) remaining nbytes address;
          offset' = u32_sub offset len;
          address' = u32_sub (package_start (layout device) address) len;
          extra = (if len < SZ_MINIMUM then SZ_MINIMUM - len else 0)
      in case suunto_common2_device_read device (u32_sub address' extra) (u32_add len extra) port of
           None \<Rightarrow> None
         | Some ((rc, bytes), port') \<Rightarrow>
             if rc \<noteq> DC_STATUS_SUCCESS then Some (rc, nbytes, address', offset', data, port')
             else if offset' < extra then None
             else (case buf_write data (offset' - extra) bytes of
                     None \<Rightarrow> None
                   | Some data' \<Rightarrow>
                       foreach_packages device sz remaining (u32_add nbytes len)
                         address' offset' data' port'))"
  by (subst foreach_packages.simps)
     (simp only: assms if_True Let_def package_len_def package_start_def)

lemma foreach_packages_padded:
  assumes "nbytes < sz"
    and "len = package_len (layout device) remaining nbytes address"
    and "len < SZ_MINIMUM"
    and "a = u32_sub (package_start (layout device) address) len"
    and "off = u32_sub offset len"
  shows "foreach_packages device sz remaining nbytes address offset data port =
     (case suunto_common2_device_read device (u32_sub a (SZ_MINIMUM - len)) SZ_MINIMUM port of
        None \<Rightarrow> None
      | Some ((rc, bytes), port') \<Rightarrow>
          if rc \<noteq> DC_STATUS_SUCCESS then Some (rc, nbytes, a, off, data, port')
          else if off < SZ_MINIMUM - len then None
          else (case buf_write data (off - (SZ_MINIMUM - len)) bytes of
                  None \<Rightarrow> None
                | Some data' \<Rightarrow>
                    foreach_packages device sz remaining (u32_add nbytes len) a off data' port'))"
proof -
  have e: "(if len < SZ_MINIMUM then SZ_MINIMUM - len else 0) = SZ_MINIMUM - len"
    using assms(3) by simp
  have u: "u32_add len (SZ_MINIMUM - len) = SZ_MINIMUM"
    using assms(3) by (simp add: u32_add_def SZ_MINIMUM_def)
  show ?thesis
    unfolding foreach_packages_step [OF assms(1)] Let_def assms(2,4,5) [symmetric] e u
    by (rule refl)
qed

lemma foreach_packages_done:
  "\<not> nbytes < sz \<Longrightarrow>
     foreach_packages device sz remaining nbytes address offset data port
       = Some (DC_STATUS_SUCCESS, nbytes, address, offset, data, port)"
  by (subst foreach_packages.simps) simp

lemma u32_sub_le: "b \<le> a \<Longrightarrow> a < 2 ^ 32 \<Longrightarrow> u32_sub a b = a - b"
  by (simp add: u32_sub_def mod_if)

subsection \<open>Family B: the test device\<close>

text \<open>
  What the test device answers, for every memory image: the version, the serial number, the
  header and the ring buffer, which the inner loop reads in one package.
\<close>

lemmas d9_eval =
  suunto_common2_device_version_def
  suunto_common2_device_read_def read_packages.simps suunto_common2_transfer_def
  transfer_retry.simps store_def Let_def d9_simulator_def
  u32_sub_def u32_add_def checksum_xor_uint8_def
  SZ_VERSION_def SZ_PACKET_def SZ_MINIMUM_def MAXRETRIES_def
  small_device_def small_layout_def

lemma simulator_version:
  "suunto_common2_device_version (small_device mem fp) SZ_VERSION port
     = Some ((DC_STATUS_SUCCESS, [0x0E, 1, 2, 3]), port @ [[0x0F, 0x00, 0x00, 0x0F]])"
  by (simp add: d9_eval)

lemma simulator_serial:
  "suunto_common2_device_read (small_device mem fp) 0x0023 8 port
     = Some ((DC_STATUS_SUCCESS, map mem [0x23..<0x2B]),
             port @ [[0x05, 0x00, 0x03, 0x00, 0x23, 0x08, 0x2D]])"
  by (simp add: d9_eval)

lemma simulator_header:
  "suunto_common2_device_read (small_device mem fp) 0x0190 8 port
     = Some ((DC_STATUS_SUCCESS, map mem [0x190..<0x198]),
             port @ [[0x05, 0x00, 0x03, 0x01, 0x90, 0x08, 0x9F]])"
  by (simp add: d9_eval)

lemma simulator_ring:
  "suunto_common2_device_read (small_device mem fp) 0x0200 64 port
     = Some ((DC_STATUS_SUCCESS, map mem [0x200..<0x240]),
             port @ [[0x05, 0x00, 0x03, 0x02, 0x00, 0x40, 0x44]])"
  by (simp add: d9_eval)

lemma small_device_sel:
  "layout (small_device mem fp) = small_layout"
  "fingerprint (small_device mem fp) = fp"
  by (simp_all add: small_device_def)

lemma small_layout_sel:
  "serial small_layout = 0x23"
  "rb_profile_begin small_layout = 0x200"
  "rb_profile_end small_layout = 0x240"
  by (simp_all add: small_layout_def)

lemma simulator_serial_layout:
  "suunto_common2_device_read (small_device mem fp) (serial (layout (small_device mem fp))) 8 port
     = Some ((DC_STATUS_SUCCESS, map mem [0x23..<0x2B]),
             port @ [[0x05, 0x00, 0x03, 0x00, 0x23, 0x08, 0x2D]])"
  by (simp only: small_device_sel small_layout_sel simulator_serial)

lemma simulator_packages:
  assumes "0 < sz" and "sz \<le> 64"
  shows "foreach_packages (small_device mem fp) sz 64 0 0x200 72 (replicate 72 None) header_commands
           = Some (DC_STATUS_SUCCESS, 64, 0x200, 8, ring_buffer mem, ring_commands)"
proof -
  have l: "package_len (layout (small_device mem fp)) 64 0 0x200 = 64"
    by (simp add: package_len_def package_start_def small_device_sel small_layout_sel
          u32_add_def u32_sub_def SZ_PACKET_def Let_def)
  have a: "u32_sub (package_start (layout (small_device mem fp)) 0x200) 64 = 0x200"
    by (simp add: package_start_def small_device_sel small_layout_sel u32_sub_def)
  have r: "suunto_common2_device_read (small_device mem fp) (u32_sub 0x200 0) (u32_add 64 0)
             header_commands
           = Some ((DC_STATUS_SUCCESS, map mem [0x200..<0x240]), ring_commands)"
    by (simp add: u32_sub_def u32_add_def simulator_ring ring_commands_def del: upt_rec_numeral)
  have w: "buf_write (replicate 72 None) 8 (map mem [0x200..<0x240]) = Some (ring_buffer mem)"
    by (simp add: buf_write_def ring_buffer_def comp_def del: upt_rec_numeral)
  have d: "foreach_packages (small_device mem fp) sz 64 (u32_add 0 64) 0x200 8 (ring_buffer mem) ring_commands
             = Some (DC_STATUS_SUCCESS, 64, 0x200, 8, ring_buffer mem, ring_commands)"
    using assms(2) by (simp add: u32_add_def foreach_packages_done)
  have o: "u32_sub 72 64 = 8"
    by (simp add: u32_sub_def)
  have e: "(if (64::nat) < SZ_MINIMUM then SZ_MINIMUM - 64 else 0) = 0"
    by (simp add: SZ_MINIMUM_def)
  show ?thesis
    unfolding foreach_packages_step [OF assms(1)] Let_def l a o e r
    by (simp add: w d del: upt_rec_numeral)
qed

lemma ring_buffer_slice:
  assumes "8 \<le> p" and "p + n \<le> 72"
  shows "buf_slice (ring_buffer mem) p n = Some (map mem [0x1F8 + p..<0x1F8 + p + n])"
proof -
  have "drop p (ring_buffer mem) = map (\<lambda>a. Some (mem a)) [0x1F8 + p..<0x240]"
    using assms(1) by (simp add: ring_buffer_def drop_map del: upt_rec_numeral)
  then have "take n (drop p (ring_buffer mem)) = map Some (map mem [0x1F8 + p..<0x1F8 + p + n])"
    using assms by (simp add: take_map comp_def del: upt_rec_numeral)
  moreover have "length (ring_buffer mem) = 72"
    by (simp add: ring_buffer_def del: upt_rec_numeral)
  ultimately show ?thesis
    using assms(2) by (simp add: buf_slice_def those_map_Some del: upt_rec_numeral map_map)
qed

lemma loop_entry_sel:
  "fe_remaining (loop_entry c u) = 64" "fe_userdata (loop_entry c u) = u"
  "fe_current (loop_entry c u) = c" "fe_previous (loop_entry c u) = 0x200"
  "fe_model (loop_entry c u) = 0x0E"
  by (simp_all add: loop_entry_def)

lemma ring_vars_sel:
  "fe_remaining (ring_vars mem r a c p st u) = r" "fe_userdata (ring_vars mem r a c p st u) = u"
  "fe_status (ring_vars mem r a c p st u) = st" "fe_port (ring_vars mem r a c p st u) = ring_commands"
  "fe_current (ring_vars mem r a c p st u) = c" "fe_previous (ring_vars mem r a c p st u) = p"
  "fe_model (ring_vars mem r a c p st u) = 0x0E"
  "(ring_vars mem r a c p st u)\<lparr>fe_userdata := u'\<rparr> = ring_vars mem r a c p st u'"
  "(ring_vars mem r a c p st u)\<lparr>fe_status := st'\<rparr> = ring_vars mem r a c p st' u"
  by (simp_all add: ring_vars_def)

lemma ring_dive_sel:
  "dr_size (ring_dive mem sz n prev next) = sz" "dr_port (ring_dive mem sz n prev next) = ring_commands"
  "dr_data (ring_dive mem sz n prev next) = ring_buffer mem"
  "dr_prev (ring_dive mem sz n prev next) = prev" "dr_next (ring_dive mem sz n prev next) = next"
  "n < 2 ^ 32 \<Longrightarrow> sz \<le> n \<Longrightarrow> dive_pos (ring_dive mem sz n prev next) = 8 + (n - sz)"
  by (simp_all add: ring_dive_def dive_pos_def u32_sub_le)

lemma next_vars_entry:
  "sz \<le> 64 \<Longrightarrow> next_vars (loop_entry c u) (ring_dive mem sz 64 prev next)
     = ring_vars mem (64 - sz) (64 - sz) prev c DC_STATUS_SUCCESS u"
  by (simp add: next_vars_def loop_entry_def ring_dive_def ring_vars_def u32_sub_le)

lemma next_vars_ring:
  "sz \<le> r \<Longrightarrow> r \<le> 64 \<Longrightarrow> next_vars (ring_vars mem r r c p st u) (ring_dive mem sz r prev next)
     = ring_vars mem (r - sz) (r - sz) prev c st u"
  by (simp add: next_vars_def ring_dive_def ring_vars_def u32_sub_le)

lemma reads_entry:
  assumes "sz = RB_PROFILE_DISTANCE_B small_layout c 0x200 True"
    and "4 \<le> sz" and "sz \<le> 64"
    and "array_uint16_le (mem (0x240 - sz)) (mem (0x241 - sz)) = prev"
    and "array_uint16_le (mem (0x242 - sz)) (mem (0x243 - sz)) = next"
    and "0x200 \<le> prev" and "prev < 0x240" and "0x200 \<le> next" and "next < 0x240"
    and "next = 0x200 \<or> next = c"
  shows "reads_dive (small_device mem fp) (loop_entry c u) (ring_dive mem sz 64 prev next)"
proof -
  have "buf_slice (ring_buffer mem) (8 + (64 - sz)) 4
          = Some (map mem [0x1F8 + (8 + (64 - sz))..<0x1F8 + (8 + (64 - sz)) + 4])"
    using assms(2,3) by (intro ring_buffer_slice) simp_all
  also have "[0x1F8 + (8 + (64 - sz))..<0x1F8 + (8 + (64 - sz)) + 4]
               = [0x240 - sz, 0x241 - sz, 0x242 - sz, 0x243 - sz]"
    using assms(3) by (simp add: upt_conv_Cons del: upt_rec_numeral) arith
  finally have t: "buf_slice (ring_buffer mem) (8 + (64 - sz)) 4
                     = Some [mem (0x240 - sz), mem (0x241 - sz), mem (0x242 - sz), mem (0x243 - sz)]"
    by simp
  have p: "foreach_packages (small_device mem fp) sz 64 0 0x200 72 (replicate 72 None) header_commands
           = Some (DC_STATUS_SUCCESS, 64, 0x200, 8, ring_buffer mem, ring_commands)"
    using assms(2,3) by (intro simulator_packages) simp_all
  show ?thesis
    unfolding reads_dive_def
    using assms p t
    by (simp add: loop_entry_def ring_dive_def dive_pos_def small_device_sel small_layout_sel
          u32_sub_le)
qed

lemma reads_ring:
  assumes "sz = RB_PROFILE_DISTANCE_B small_layout c p True"
    and "4 \<le> sz" and "sz \<le> r" and "r \<le> 64"
    and "array_uint16_le (mem (0x200 + r - sz)) (mem (0x201 + r - sz)) = prev"
    and "array_uint16_le (mem (0x202 + r - sz)) (mem (0x203 + r - sz)) = next"
    and "0x200 \<le> prev" and "prev < 0x240" and "0x200 \<le> next" and "next < 0x240"
    and "next = p \<or> next = c"
  shows "reads_dive (small_device mem fp) (ring_vars mem r r c p st u) (ring_dive mem sz r prev next)"
proof -
  have "buf_slice (ring_buffer mem) (8 + (r - sz)) 4
          = Some (map mem [0x1F8 + (8 + (r - sz))..<0x1F8 + (8 + (r - sz)) + 4])"
    using assms(2-4) by (intro ring_buffer_slice) simp_all
  also have "[0x1F8 + (8 + (r - sz))..<0x1F8 + (8 + (r - sz)) + 4]
               = [0x200 + r - sz, 0x201 + r - sz, 0x202 + r - sz, 0x203 + r - sz]"
    using assms(3) by (simp add: upt_conv_Cons del: upt_rec_numeral) arith
  finally have t: "buf_slice (ring_buffer mem) (8 + (r - sz)) 4
       = Some [mem (0x200 + r - sz), mem (0x201 + r - sz), mem (0x202 + r - sz), mem (0x203 + r - sz)]"
    by simp
  have p: "foreach_packages (small_device mem fp) sz r r 0x200 8 (ring_buffer mem) ring_commands
           = Some (DC_STATUS_SUCCESS, r, 0x200, 8, ring_buffer mem, ring_commands)"
    using assms(3) by (intro foreach_packages_done) simp
  show ?thesis
    unfolding reads_dive_def
    using assms p t
    by (simp add: ring_vars_def ring_dive_def dive_pos_def small_device_sel small_layout_sel
          u32_sub_le)
qed

lemma foreach_dives_end:
  "foreach_dives device callback (ring_vars mem 0 a c p st u) = Some ((st, u), ring_commands)"
  by (subst foreach_dives.simps) (simp add: ring_vars_sel)

lemma foreach_dives_entry:
  "foreach_dives device callback (loop_entry c u) =
     (case foreach_dive device callback (loop_entry c u) of
        None \<Rightarrow> None
      | Some (Return rc userdata port) \<Rightarrow> Some ((rc, userdata), port)
      | Some (Continue s') \<Rightarrow> foreach_dives device callback s')"
  by (subst foreach_dives.simps) (simp add: loop_entry_sel)

lemma foreach_dives_ring:
  "r \<noteq> 0 \<Longrightarrow> foreach_dives device callback (ring_vars mem r a c p st u) =
     (case foreach_dive device callback (ring_vars mem r a c p st u) of
        None \<Rightarrow> None
      | Some (Return rc userdata port) \<Rightarrow> Some ((rc, userdata), port)
      | Some (Continue s') \<Rightarrow> foreach_dives device callback s')"
  by (subst foreach_dives.simps) (simp add: ring_vars_sel)

text \<open>The traversal of the image with two dives, pass by pass.\<close>

lemmas begin_eval =
  foreach_begin_def simulator_version simulator_serial simulator_header
  small_device_sel small_layout_sel Let_def SZ_MINIMUM_def array_uint16_le_def
  RB_PROFILE_DISTANCE_B_def ringbuffer_distance_def u32_add_def u32_sub_def
  loop_entry_def header_commands_def

lemmas distance_eval =
  RB_PROFILE_DISTANCE_B_def ringbuffer_distance_def u32_sub_def small_layout_sel

lemmas pass_eval =
  ring_dive_sel loop_entry_sel ring_vars_sel next_vars_entry next_vars_ring ring_buffer_slice
  fp_offset_of_def FP_OFFSET_def small_device_sel
  no_fingerprint_def dive_0220_def fp_0220_def dive_0200_def fp_0200_def

lemmas run_eval =
  suunto_common2_device_foreach_def foreach_dives_entry foreach_dives_ring foreach_dives_end
  keep_dives_def stop_at_dive_def
  no_fingerprint_def dive_0220_def fp_0220_def dive_0200_def fp_0200_def

lemma two_dives_begin:
  "foreach_begin (small_device two_dives_ring fp) (\<lambda>n. True) u []
     = Some (Continue (loop_entry 0x220 u))"
  by (simp add: begin_eval two_dives_ring_def)

lemma two_dives_header:
  "suunto_common2_device_read (small_device two_dives_ring fp) 0x0190 8 port
     = Some ((DC_STATUS_SUCCESS, [0x20, 0x02, 0x02, 0x00, 0x00, 0x02, 0x00, 0x02]),
             port @ [[0x05, 0x00, 0x03, 0x01, 0x90, 0x08, 0x9F]])"
  by (simp add: simulator_header two_dives_ring_def)

lemma two_dives_reads_0220:
  "reads_dive (small_device two_dives_ring fp) (loop_entry 0x220 u)
     (ring_dive two_dives_ring 32 64 0x200 0x200)"
  by (rule reads_entry) (simp_all add: distance_eval two_dives_ring_def array_uint16_le_def)

lemma two_dives_reads_0200:
  "reads_dive (small_device two_dives_ring fp) (ring_vars two_dives_ring 32 32 0x200 0x220 st u)
     (ring_dive two_dives_ring 32 32 0x220 0x220)"
  by (rule reads_ring) (simp_all add: distance_eval two_dives_ring_def array_uint16_le_def)

lemma two_dives_pass_0220:
  assumes "fp \<noteq> fp_0220" and "length fp = 7"
  shows "foreach_dive (small_device two_dives_ring fp) (Some cb) (loop_entry 0x220 u) =
     (case cb dive_0220 fp_0220 u of
        (continue, u') \<Rightarrow>
          if \<not> continue then Some (Return DC_STATUS_SUCCESS u' ring_commands)
          else Some (Continue (ring_vars two_dives_ring 32 32 0x200 0x220 DC_STATUS_SUCCESS u')))"
  unfolding foreach_dive_reads [OF two_dives_reads_0220]
  using assms assms(1) [symmetric]
  by (simp add: pass_eval two_dives_ring_def split: prod.splits)

lemma two_dives_pass_0200:
  assumes "fp \<noteq> fp_0200" and "length fp = 7"
  shows "foreach_dive (small_device two_dives_ring fp) (Some cb)
           (ring_vars two_dives_ring 32 32 0x200 0x220 st u) =
     (case cb dive_0200 fp_0200 u of
        (continue, u') \<Rightarrow>
          if \<not> continue then Some (Return DC_STATUS_SUCCESS u' ring_commands)
          else Some (Continue (ring_vars two_dives_ring 0 0 0x220 0x200 st u')))"
  unfolding foreach_dive_reads [OF two_dives_reads_0200]
  using assms assms(1) [symmetric]
  by (simp add: pass_eval two_dives_ring_def split: prod.splits)

lemma two_dives_run:
  "suunto_common2_device_foreach (small_device two_dives_ring no_fingerprint) (\<lambda>n. True)
       (Some keep_dives) [] []
     = Some ((DC_STATUS_SUCCESS, [(dive_0220, fp_0220), (dive_0200, fp_0200)]), ring_commands)"
  by (simp add: run_eval two_dives_begin
        two_dives_pass_0220 [unfolded fp_0220_def dive_0220_def]
        two_dives_pass_0200 [unfolded fp_0200_def dive_0200_def])

lemma two_dives_traverses_0220:
  "traverses (small_device two_dives_ring fp_0200) (Some keep_dives) (loop_entry 0x220 [])
     [loop_entry 0x220 []]
     (ring_vars two_dives_ring 32 32 0x200 0x220 DC_STATUS_SUCCESS [(dive_0220, fp_0220)])"
  using traverses_pass [OF traverses_start, of "loop_entry 0x220 []"
          "small_device two_dives_ring fp_0200" "Some keep_dives"]
  by (simp add: loop_entry_sel two_dives_pass_0220 keep_dives_def fp_0200_def fp_0220_def)

lemma two_dives_traverses:
  "traverses (small_device two_dives_ring no_fingerprint) (Some keep_dives)
     (loop_entry 0x220 [])
     [loop_entry 0x220 [],
      ring_vars two_dives_ring 32 32 0x200 0x220 DC_STATUS_SUCCESS [(dive_0220, fp_0220)]]
     (ring_vars two_dives_ring 0 0 0x220 0x200 DC_STATUS_SUCCESS
        [(dive_0220, fp_0220), (dive_0200, fp_0200)])"
  using traverses_pass [OF traverses_pass [OF traverses_start],
          of "loop_entry 0x220 []" "small_device two_dives_ring no_fingerprint"
             "Some keep_dives"
             "ring_vars two_dives_ring 32 32 0x200 0x220 DC_STATUS_SUCCESS [(dive_0220, fp_0220)]"
             "ring_vars two_dives_ring 0 0 0x220 0x200 DC_STATUS_SUCCESS
                [(dive_0220, fp_0220), (dive_0200, fp_0200)]"]
  by (simp add: loop_entry_sel ring_vars_sel two_dives_pass_0220 two_dives_pass_0200
        keep_dives_def no_fingerprint_def fp_0200_def fp_0220_def)

text \<open>
  The traversals of the image with an incomplete dive, of the image with one dive and the
  header of the image with a bad \<open>end\<close> pointer.
\<close>

lemma incomplete_begin:
  "foreach_begin (small_device incomplete_dive_ring fp) (\<lambda>n. True) u []
     = Some (Continue (loop_entry 0x220 u))"
  by (simp add: begin_eval incomplete_dive_ring_def two_dives_ring_def)

lemma incomplete_reads_0220:
  "reads_dive (small_device incomplete_dive_ring fp) (loop_entry 0x220 u)
     (ring_dive incomplete_dive_ring 32 64 0x200 0x220)"
  by (rule reads_entry)
     (simp_all add: distance_eval incomplete_dive_ring_def two_dives_ring_def array_uint16_le_def)

lemma incomplete_reads_0200:
  "reads_dive (small_device incomplete_dive_ring fp)
     (ring_vars incomplete_dive_ring 32 32 0x200 0x220 st u)
     (ring_dive incomplete_dive_ring 32 32 0x220 0x220)"
  by (rule reads_ring)
     (simp_all add: distance_eval incomplete_dive_ring_def two_dives_ring_def array_uint16_le_def)

lemma incomplete_pass_0220:
  "foreach_dive (small_device incomplete_dive_ring fp) callback (loop_entry 0x220 u)
     = Some (Continue (ring_vars incomplete_dive_ring 32 32 0x200 0x220 DC_STATUS_DATAFORMAT u))"
  unfolding foreach_dive_reads [OF incomplete_reads_0220]
  by (simp add: pass_eval)

lemma incomplete_pass_0200:
  assumes "fp \<noteq> fp_0200" and "length fp = 7"
  shows "foreach_dive (small_device incomplete_dive_ring fp) (Some cb)
           (ring_vars incomplete_dive_ring 32 32 0x200 0x220 st u) =
     (case cb dive_0200 fp_0200 u of
        (continue, u') \<Rightarrow>
          if \<not> continue then Some (Return DC_STATUS_SUCCESS u' ring_commands)
          else Some (Continue (ring_vars incomplete_dive_ring 0 0 0x220 0x200 st u')))"
  unfolding foreach_dive_reads [OF incomplete_reads_0200]
  using assms assms(1) [symmetric]
  by (simp add: pass_eval incomplete_dive_ring_def two_dives_ring_def split: prod.splits)

lemma incomplete_traverses:
  "traverses (small_device incomplete_dive_ring no_fingerprint) (Some keep_dives)
     (loop_entry 0x220 [])
     [loop_entry 0x220 [], ring_vars incomplete_dive_ring 32 32 0x200 0x220 DC_STATUS_DATAFORMAT []]
     (ring_vars incomplete_dive_ring 0 0 0x220 0x200 DC_STATUS_DATAFORMAT [(dive_0200, fp_0200)])"
  using traverses_pass [OF traverses_pass [OF traverses_start],
          of "loop_entry 0x220 []" "small_device incomplete_dive_ring no_fingerprint"
             "Some keep_dives"
             "ring_vars incomplete_dive_ring 32 32 0x200 0x220 DC_STATUS_DATAFORMAT []"
             "ring_vars incomplete_dive_ring 0 0 0x220 0x200 DC_STATUS_DATAFORMAT
                [(dive_0200, fp_0200)]"]
  by (simp add: loop_entry_sel ring_vars_sel incomplete_pass_0220 incomplete_pass_0200
        keep_dives_def no_fingerprint_def fp_0200_def)

lemma incomplete_dives:
  "incomplete_dive (small_device incomplete_dive_ring fp) (loop_entry 0x220 u)"
  "\<not> incomplete_dive (small_device two_dives_ring fp) (loop_entry 0x220 u)"
  "\<not> incomplete_dive (small_device two_dives_ring fp)
       (ring_vars two_dives_ring 32 32 0x200 0x220 st u)"
  by (simp_all add: incomplete_dive_next [OF incomplete_reads_0220]
        incomplete_dive_next [OF two_dives_reads_0220] incomplete_dive_next [OF two_dives_reads_0200]
        ring_dive_sel loop_entry_sel ring_vars_sel)

lemma one_dive_begin:
  "foreach_begin (small_device one_dive_ring fp) (\<lambda>n. True) u []
     = Some (Continue (loop_entry 0x200 u))"
  by (simp add: begin_eval one_dive_ring_def)

lemma one_dive_reads:
  "reads_dive (small_device one_dive_ring fp) (loop_entry 0x200 u)
     (ring_dive one_dive_ring 64 64 0x200 0x200)"
  by (rule reads_entry) (simp_all add: distance_eval one_dive_ring_def array_uint16_le_def)

lemma one_dive_pass:
  "foreach_dive (small_device one_dive_ring fp) callback (loop_entry 0x200 u)
     = Some (Continue (ring_vars one_dive_ring 0 0 0x200 0x200 DC_STATUS_DATAFORMAT u))"
  unfolding foreach_dive_reads [OF one_dive_reads]
  by (simp add: pass_eval)

lemma one_dive_run:
  "suunto_common2_device_foreach (small_device one_dive_ring fp) (\<lambda>n. True) callback u []
     = Some ((DC_STATUS_DATAFORMAT, u), ring_commands)"
  by (simp add: run_eval one_dive_begin one_dive_pass)

lemma bad_end_header:
  "suunto_common2_device_read (small_device bad_end_ring fp) 0x0190 8 port
     = Some ((DC_STATUS_SUCCESS, [0x20, 0x02, 0x02, 0x00, 0x00, 0x03, 0x00, 0x02]),
             port @ [[0x05, 0x00, 0x03, 0x01, 0x90, 0x08, 0x9F]])"
  by (simp add: simulator_header bad_end_ring_def two_dives_ring_def)

subsection \<open>Family B: the fingerprint\<close>

text \<open>
  C4, as stated, fails.  The image with one dive has a dive whose next pointer equals
  \<open>previous\<close> (both are \<open>0x0200\<close>), and the seven bytes at \<open>0x15\<close> from the start of the dive
  are the stored fingerprint.  But its next pointer equals \<open>current\<close> too, and the code tests
  \<^verbatim>\<open>next != current\<close> before it looks at the fingerprint: the dive counts as incomplete,
  the fingerprint is not compared, and the traversal ends with the data format error.
\<close>

theorem single_dive_fingerprint_ignored:
  "foreach_begin (small_device one_dive_ring fp_0200) (\<lambda>n. True) [] []
     = Some (Continue (loop_entry 0x200 []))
   \<and> buf_slice (ring_buffer one_dive_ring) 8 4 = Some [0x00, 0x02, 0x00, 0x02]
   \<and> buf_slice (ring_buffer one_dive_ring) (8 + 0x15) 7 = Some fp_0200
   \<and> suunto_common2_device_foreach (small_device one_dive_ring fp_0200) (\<lambda>n. True)
        (Some keep_dives) [] []
      = Some ((DC_STATUS_DATAFORMAT, []), ring_commands)"
  by (simp add: one_dive_begin one_dive_run)
     (simp add: ring_buffer_slice one_dive_ring_def fp_0200_def)

text \<open>
  C4, amended.  In the Family-B extractor, for every dive that a pass of the traversal has
  read and whose next pointer equals \<open>previous\<close> and differs from \<open>current\<close>: if the bytes of
  the buffer at \<open>fp_offset\<close> from the start of the dive, as many as the fingerprint has, equal
  the stored fingerprint, the function returns success at once, with the user data as the
  passes before left it: the callback is invoked neither for this dive nor for an older
  one.  \<open>fp_offset\<close> is \<open>0x15\<close>, plus 6 when the model byte of the version is \<open>0x15\<close>; the
  model does not change during the traversal.
\<close>

theorem foreach_fingerprint_stops:
  assumes "foreach_begin device alloc userdata port = Some (Continue s0)"
    and "traverses device callback s0 ts s"
    and "reads_dive device s d"
    and "dr_next d = fe_previous s" and "dr_next d \<noteq> fe_current s"
    and "buf_slice (dr_data d) (dive_pos d + fp_offset_of (fe_model s))
           (length (fingerprint device)) = Some (fingerprint device)"
  shows "suunto_common2_device_foreach device alloc callback userdata port
           = Some ((DC_STATUS_SUCCESS, fe_userdata s), dr_port d)
         \<and> fe_model s = fe_model s0
         \<and> fp_offset_of (fe_model s) = 0x15 + (if fe_model s = 0x15 then 6 else 0)"
proof -
  have "foreach_dive device callback s
          = Some (Return DC_STATUS_SUCCESS (fe_userdata s) (dr_port d))"
    using assms(5,6) by (simp add: foreach_dive_reads [OF assms(3)])
  with reads_dive_remaining [OF assms(3)]
  have "foreach_dives device callback s = Some ((DC_STATUS_SUCCESS, fe_userdata s), dr_port d)"
    by (rule foreach_dives_return)
  with foreach_traverses [OF assms(1,2)] traverses_model [OF assms(2)] show ?thesis
    by (simp add: fp_offset_of_def FP_OFFSET_def)
qed

text \<open>
  The theorem at the image with two dives, when the stored fingerprint is that of the older
  dive: the callback gets the newer dive only.
\<close>

theorem foreach_fingerprint_stops_witness:
  "suunto_common2_device_foreach (small_device two_dives_ring fp_0200) (\<lambda>n. True)
       (Some keep_dives) [] []
     = Some ((DC_STATUS_SUCCESS, [(dive_0220, fp_0220)]), ring_commands)"
  using foreach_fingerprint_stops [OF two_dives_begin two_dives_traverses_0220 two_dives_reads_0200]
  by (simp add: pass_eval two_dives_ring_def)

subsection \<open>Family B: incomplete dives\<close>

text \<open>
  C5.  In the Family-B extractor, at every point of a traversal: when the pass has read a
  dive whose next pointer equals \<open>current\<close>, the status is set to the data format error, the
  callback is not invoked (the user data stay as they are), and the traversal goes on with
  the older dive, at the dive's previous pointer; and when the traversal comes to its end
  (nothing remains), the function returns the data format error if one of the dives it
  passed was such a dive, and success otherwise.  A dive that the pass has read is one
  that went through the checks that come first in the pass: its size fits what remains,
  its packages were read, and its two pointers are in the ring buffer.  The traversal that
  comes to its end is the one that leaves the loop; the returns from inside the loop, at a
  fingerprint or at a callback that asks to stop, are success at once.
\<close>

theorem foreach_incomplete_dive:
  assumes "foreach_begin device alloc userdata port = Some (Continue s0)"
    and "traverses device callback s0 ts s"
  shows "(\<forall>d. reads_dive device s d \<and> dr_next d = fe_current s \<longrightarrow>
            traverses device callback s0 (ts @ [s])
              ((next_vars s d)\<lparr>fe_status := DC_STATUS_DATAFORMAT\<rparr>)
            \<and> fe_userdata (next_vars s d) = fe_userdata s
            \<and> fe_previous (next_vars s d) = fe_current s
            \<and> fe_current (next_vars s d) = dr_prev d)
       \<and> (fe_remaining s = 0 \<longrightarrow>
            suunto_common2_device_foreach device alloc callback userdata port
              = Some ((if \<exists>t \<in> set ts. incomplete_dive device t
                       then DC_STATUS_DATAFORMAT else DC_STATUS_SUCCESS,
                       fe_userdata s), fe_port s))"
proof (intro conjI allI impI)
  fix d
  assume d: "reads_dive device s d \<and> dr_next d = fe_current s"
  then have "foreach_dive device callback s
               = Some (Continue ((next_vars s d)\<lparr>fe_status := DC_STATUS_DATAFORMAT\<rparr>))"
    by (simp add: foreach_dive_reads [of device s d])
  with assms(2) reads_dive_remaining [of device s d] d
  show "traverses device callback s0 (ts @ [s])
          ((next_vars s d)\<lparr>fe_status := DC_STATUS_DATAFORMAT\<rparr>)"
    by (intro traverses_pass) simp_all
  show "fe_userdata (next_vars s d) = fe_userdata s"
    and "fe_previous (next_vars s d) = fe_current s"
    and "fe_current (next_vars s d) = dr_prev d"
    by (simp_all add: next_vars_def)
next
  assume "fe_remaining s = 0"
  then have "foreach_dives device callback s = Some ((fe_status s, fe_userdata s), fe_port s)"
    by (simp add: foreach_dives.simps [of device callback s])
  with foreach_traverses [OF assms] traverses_status [OF assms(2)]
    foreach_begin_status [OF assms(1)]
  show "suunto_common2_device_foreach device alloc callback userdata port
              = Some ((if \<exists>t \<in> set ts. incomplete_dive device t
                       then DC_STATUS_DATAFORMAT else DC_STATUS_SUCCESS,
                       fe_userdata s), fe_port s)"
    by simp
qed

text \<open>
  The theorem at the image with an incomplete dive, where the first pass sets the status
  and the second pass gives the older dive to the callback, and at the image with two
  dives, where no dive is incomplete.
\<close>

theorem foreach_incomplete_dive_witness:
  "traverses (small_device incomplete_dive_ring no_fingerprint) (Some keep_dives)
     (loop_entry 0x220 []) [loop_entry 0x220 []]
     (ring_vars incomplete_dive_ring 32 32 0x200 0x220 DC_STATUS_DATAFORMAT [])
   \<and> suunto_common2_device_foreach (small_device incomplete_dive_ring no_fingerprint) (\<lambda>n. True)
        (Some keep_dives) [] []
      = Some ((DC_STATUS_DATAFORMAT, [(dive_0200, fp_0200)]), ring_commands)
   \<and> suunto_common2_device_foreach (small_device two_dives_ring no_fingerprint) (\<lambda>n. True)
        (Some keep_dives) [] []
      = Some ((DC_STATUS_SUCCESS, [(dive_0220, fp_0220), (dive_0200, fp_0200)]), ring_commands)"
  using foreach_incomplete_dive [where callback = "Some keep_dives",
          OF incomplete_begin [where fp = no_fingerprint and u = "[]"] traverses_start,
          THEN conjunct1, THEN spec [where x = "ring_dive incomplete_dive_ring 32 64 0x200 0x220"]]
        foreach_incomplete_dive [OF incomplete_begin incomplete_traverses, THEN conjunct2]
        foreach_incomplete_dive [OF two_dives_begin two_dives_traverses, THEN conjunct2]
  by (simp add: incomplete_reads_0220 incomplete_dives ring_dive_sel loop_entry_sel ring_vars_sel
        next_vars_entry)

subsection \<open>The callback that asks to stop\<close>




subsection \<open>Family B: the dive that the callback gets\<close>




subsection \<open>Family B: the pointers of the header\<close>

text \<open>
  C2, as stated, fails.  The header of the image with two dives has \<open>count = 2\<close>, which is
  not in the ring buffer \<open>[0x0200, 0x0240)\<close>; the function returns success and the callback
  gets both dives.
\<close>

theorem header_count_not_validated:
  "suunto_common2_device_read (small_device two_dives_ring no_fingerprint) 0x0190 8
       [[0x0F, 0x00, 0x00, 0x0F], [0x05, 0x00, 0x03, 0x00, 0x23, 0x08, 0x2D]]
     = Some ((DC_STATUS_SUCCESS, [0x20, 0x02, 0x02, 0x00, 0x00, 0x02, 0x00, 0x02]), header_commands)
   \<and> array_uint16_le 0x02 0x00 = 2
   \<and> rb_profile_begin (layout (small_device two_dives_ring no_fingerprint)) = 0x0200
   \<and> suunto_common2_device_foreach (small_device two_dives_ring no_fingerprint) (\<lambda>n. True)
        (Some keep_dives) [] []
      = Some ((DC_STATUS_SUCCESS, [(dive_0220, fp_0220), (dive_0200, fp_0200)]), ring_commands)"
  by (simp add: two_dives_header two_dives_run header_commands_def array_uint16_le_def
        small_device_sel small_layout_sel)

text \<open>
  C2, amended.  In the Family-B extractor, after the version, the serial number and the
  8-byte header have been read: if one of the three 16-bit little-endian fields \<open>last\<close>,
  \<open>end\<close> and \<open>begin\<close> is not in \<open>[rb_profile_begin, rb_profile_end)\<close>, the function returns
  the data format error, and no callback has been invoked (the user data are as given);
  if the three are in the range, the function does not return the data format error
  there, whatever \<open>count\<close> is: \<open>count\<close> is not validated.
\<close>

theorem foreach_header_pointers:
  assumes "suunto_common2_device_version device SZ_VERSION port
             = Some ((DC_STATUS_SUCCESS, version), port1)"
    and "suunto_common2_device_read device (serial (layout device)) 8 port1
             = Some ((DC_STATUS_SUCCESS, serial_number), port2)"
    and "suunto_common2_device_read device 0x0190 8 port2
             = Some ((DC_STATUS_SUCCESS, header), port3)"
    and "h_last = array_uint16_le (header ! 0) (header ! 1)"
    and "h_end = array_uint16_le (header ! 4) (header ! 5)"
    and "h_begin = array_uint16_le (header ! 6) (header ! 7)"
  shows "(h_last < rb_profile_begin (layout device) \<or> rb_profile_end (layout device) \<le> h_last \<or>
          h_end < rb_profile_begin (layout device) \<or> rb_profile_end (layout device) \<le> h_end \<or>
          h_begin < rb_profile_begin (layout device) \<or> rb_profile_end (layout device) \<le> h_begin
          \<longrightarrow> suunto_common2_device_foreach device alloc callback userdata port
                = Some ((DC_STATUS_DATAFORMAT, userdata), port3))
       \<and> (rb_profile_begin (layout device) \<le> h_last \<and> h_last < rb_profile_end (layout device) \<and>
          rb_profile_begin (layout device) \<le> h_end \<and> h_end < rb_profile_end (layout device) \<and>
          rb_profile_begin (layout device) \<le> h_begin \<and> h_begin < rb_profile_end (layout device)
          \<longrightarrow> foreach_begin device alloc userdata port
                  \<noteq> Some (Return DC_STATUS_DATAFORMAT userdata port3))"
  using assms
  by (auto simp: suunto_common2_device_foreach_def foreach_begin_def Let_def SZ_MINIMUM_def)

text \<open>
  The theorem at the image with a bad \<open>end\<close> pointer and at the image with two dives.
\<close>

theorem foreach_header_pointers_witness:
  "suunto_common2_device_foreach (small_device bad_end_ring no_fingerprint) (\<lambda>n. True)
       (Some keep_dives) [] []
     = Some ((DC_STATUS_DATAFORMAT, []), header_commands)
   \<and> foreach_begin (small_device two_dives_ring no_fingerprint) (\<lambda>n. True)
       ([] :: (byte list \<times> byte list) list) []
     \<noteq> Some (Return DC_STATUS_DATAFORMAT [] header_commands)"
  using foreach_header_pointers [where device = "small_device bad_end_ring no_fingerprint"
          and alloc = "\<lambda>n. True" and callback = "Some keep_dives" and userdata = "[]"
          and port = "[]",
          OF simulator_version simulator_serial_layout bad_end_header refl refl refl]
        foreach_header_pointers [where device = "small_device two_dives_ring no_fingerprint"
          and alloc = "\<lambda>n. True" and callback = "Some keep_dives" and userdata = "[]"
          and port = "[]",
          OF simulator_version simulator_serial_layout two_dives_header refl refl refl]
  by (simp add: small_device_sel small_layout_sel array_uint16_le_def header_commands_def)

subsection \<open>Family B: chunks and the minimum read\<close>

text \<open>
  C8, as stated, fails.  The reader is asked for 4 bytes at \<open>0x0200\<close>, fewer than the minimum
  of 8.  It sends one command, for 4 bytes at \<open>0x0200\<close>: not for 8 bytes at \<open>0x01FC\<close>.
\<close>

theorem read_requests_short_chunk:
  "suunto_common2_device_read (small_device two_dives_ring no_fingerprint) 0x0200 4 []
     = Some ((DC_STATUS_SUCCESS, [0x20, 0x02, 0x20, 0x02]),
             [[0x05, 0x00, 0x03, 0x02, 0x00, 0x04, 0x00]])"
  by (simp add: d9_eval two_dives_ring_def)

text \<open>
  C8, amended.  The Family-B reader splits a read of \<open>sz\<close> bytes at \<open>address\<close> into
  \<open>\<lceil>sz / SZ_PACKET\<rceil>\<close> commands, each for its own chunk, at the chunk's address and of the
  chunk's length, and returns \<open>sz\<close> bytes when every command is answered; it does not
  extend a short chunk: a read of at most \<open>SZ_PACKET\<close> bytes is one command for these
  bytes.  The minimum read is enforced by the inner loop of the extractor: for a package
  of \<open>len < SZ_MINIMUM\<close> bytes at address \<open>a\<close> it asks the reader for \<open>SZ_MINIMUM\<close> bytes at
  \<open>a - (SZ_MINIMUM - len)\<close> and writes them into the buffer \<open>SZ_MINIMUM - len\<close> cells before
  \<open>offset\<close>, so that the \<open>len\<close> cells from \<open>offset\<close> hold the trailing \<open>len\<close> bytes of the
  answer.
\<close>

theorem read_chunks_foreach_pads:
  assumes "packet device = Some (logging pk)"
    and "\<forall>a n p. fst (fst (pk (read_command a n) (n + 7) n p)) = DC_STATUS_SUCCESS"
    and "nbytes < n"
    and "len = package_len (layout device) remaining nbytes a0"
    and "len < SZ_MINIMUM"
    and "a = u32_sub (package_start (layout device) a0) len"
    and "off = u32_sub offset len"
  shows "(\<exists>data port'.
            suunto_common2_device_read device address sz (port, log)
              = Some ((DC_STATUS_SUCCESS, data), (port', log @ read_commands address sz))
            \<and> length data = sz)
       \<and> length (read_commands address sz) = (sz + SZ_PACKET - 1) div SZ_PACKET
       \<and> (0 < sz \<and> sz \<le> SZ_PACKET \<longrightarrow> read_commands address sz = [read_command address sz])
       \<and> foreach_packages device n remaining nbytes a0 offset buf (port, log) =
           (case suunto_common2_device_read device (u32_sub a (SZ_MINIMUM - len)) SZ_MINIMUM
                   (port, log) of
              None \<Rightarrow> None
            | Some ((rc, bytes), port') \<Rightarrow>
                if rc \<noteq> DC_STATUS_SUCCESS then Some (rc, nbytes, a, off, buf, port')
                else if off < SZ_MINIMUM - len then None
                else (case buf_write buf (off - (SZ_MINIMUM - len)) bytes of
                        None \<Rightarrow> None
                      | Some buf' \<Rightarrow>
                          foreach_packages device n remaining (u32_add nbytes len) a off buf' port'))
       \<and> (\<forall>bytes buf'.
             length bytes = SZ_MINIMUM \<and> SZ_MINIMUM - len \<le> off \<and>
             buf_write buf (off - (SZ_MINIMUM - len)) bytes = Some buf'
             \<longrightarrow> buf_slice buf' off len = Some (drop (SZ_MINIMUM - len) bytes))"
proof (intro conjI allI impI)
  from read_packages_logging [OF assms(1,2), of address sz 0 "[]" port log]
  show "\<exists>data port'.
            suunto_common2_device_read device address sz (port, log)
              = Some ((DC_STATUS_SUCCESS, data), (port', log @ read_commands address sz))
            \<and> length data = sz"
    by (simp add: suunto_common2_device_read_def)
  show "length (read_commands address sz) = (sz + SZ_PACKET - 1) div SZ_PACKET"
    by (rule length_read_commands)
  show "read_commands address sz = [read_command address sz]" if "0 < sz \<and> sz \<le> SZ_PACKET"
  proof -
    have "read_commands (u32_add address sz) 0 = []"
      by (subst read_commands.simps) simp
    with that show ?thesis
      by (subst read_commands.simps) (simp add: Let_def)
  qed
  show "foreach_packages device n remaining nbytes a0 offset buf (port, log) =
           (case suunto_common2_device_read device (u32_sub a (SZ_MINIMUM - len)) SZ_MINIMUM
                   (port, log) of
              None \<Rightarrow> None
            | Some ((rc, bytes), port') \<Rightarrow>
                if rc \<noteq> DC_STATUS_SUCCESS then Some (rc, nbytes, a, off, buf, port')
                else if off < SZ_MINIMUM - len then None
                else (case buf_write buf (off - (SZ_MINIMUM - len)) bytes of
                        None \<Rightarrow> None
                      | Some buf' \<Rightarrow>
                          foreach_packages device n remaining (u32_add nbytes len) a off buf' port'))"
    by (rule foreach_packages_padded [OF assms(3-7)])
next
  fix bytes buf'
  assume "length bytes = SZ_MINIMUM \<and> SZ_MINIMUM - len \<le> off \<and>
             buf_write buf (off - (SZ_MINIMUM - len)) bytes = Some buf'"
  with assms(5) show "buf_slice buf' off len = Some (drop (SZ_MINIMUM - len) bytes)"
    by (intro buf_write_slice [where data = buf]) simp_all
qed

text \<open>
  The theorem at a read of \<open>0x7C\<close> bytes, which takes two commands, and at a package of 4
  bytes at \<open>0x0200\<close>.
\<close>

lemma logged_device_sel:
  "packet (logged_device mem) = Some (logging (d9_simulator [0x0E, 1, 2, 3] mem))"
  "layout (logged_device mem) = small_layout"
  by (simp_all add: logged_device_def)

lemma simulator_answers:
  "\<forall>a n p. fst (fst (d9_simulator version mem (read_command a n) (n + 7) n p)) = DC_STATUS_SUCCESS"
  by (simp add: d9_simulator_def read_command_def Let_def)

lemma logged_read:
  "suunto_common2_device_read (logged_device two_dives_ring) 0x01FC 8 ([], [])
     = Some ((DC_STATUS_SUCCESS, [0xFC, 0xFD, 0xFE, 0xFF, 0x20, 0x02, 0x20, 0x02]),
             ([[0x05, 0x00, 0x03, 0x01, 0xFC, 0x08, 0xF3]],
              [[0x05, 0x00, 0x03, 0x01, 0xFC, 0x08, 0xF3]]))"
  by (simp add: suunto_common2_device_read_def read_packages.simps suunto_common2_transfer_def
        transfer_retry.simps store_def Let_def d9_simulator_def logging_def logged_device_def
        u32_sub_def u32_add_def checksum_xor_uint8_def SZ_PACKET_def MAXRETRIES_def
        two_dives_ring_def)

lemma two_read_commands:
  "read_commands 0x0200 0x7C
     = [[0x05, 0x00, 0x03, 0x02, 0x00, 0x78, 0x7C], [0x05, 0x00, 0x03, 0x02, 0x78, 0x04, 0x78]]"
  by (simp add: read_commands.simps read_command_def Let_def SZ_PACKET_def u32_add_def
        checksum_xor_uint8_def)

theorem read_chunks_foreach_pads_witness:
  "map_option (\<lambda>r. (fst (fst r), length (snd (fst r)), snd (snd r)))
       (suunto_common2_device_read (logged_device two_dives_ring) 0x0200 0x7C ([], []))
     = Some (DC_STATUS_SUCCESS, 0x7C,
             [[0x05, 0x00, 0x03, 0x02, 0x00, 0x78, 0x7C], [0x05, 0x00, 0x03, 0x02, 0x78, 0x04, 0x78]])
   \<and> foreach_packages (logged_device two_dives_ring) 4 4 0 0x0204 12 (replicate 72 None) ([], [])
     = Some (DC_STATUS_SUCCESS, 4, 0x0200, 8,
             replicate 4 None @ map Some [0xFC, 0xFD, 0xFE, 0xFF, 0x20, 0x02, 0x20, 0x02]
               @ replicate 60 None,
             ([[0x05, 0x00, 0x03, 0x01, 0xFC, 0x08, 0xF3]],
              [[0x05, 0x00, 0x03, 0x01, 0xFC, 0x08, 0xF3]]))
   \<and> buf_slice (replicate 4 None @ map Some [0xFC, 0xFD, 0xFE, 0xFF, 0x20, 0x02, 0x20, 0x02]
                 @ replicate 60 None) 8 4
     = Some [0x20, 0x02, 0x20, 0x02]"
proof -
  let ?device = "logged_device two_dives_ring"
  have n: "(0::nat) < 4"
    by simp
  have len: "4 = package_len (layout ?device) 4 0 0x0204"
    by (simp add: package_len_def package_start_def logged_device_sel small_layout_sel
          u32_add_def u32_sub_def SZ_PACKET_def Let_def)
  have short: "4 < SZ_MINIMUM"
    by (simp add: SZ_MINIMUM_def)
  have a: "0x0200 = u32_sub (package_start (layout ?device) 0x0204) 4"
    by (simp add: package_start_def logged_device_sel small_layout_sel u32_sub_def)
  have off: "8 = u32_sub 12 4"
    by (simp add: u32_sub_def)
  have w: "buf_write (replicate 72 None) (8 - (SZ_MINIMUM - 4))
             [0xFC, 0xFD, 0xFE, 0xFF, 0x20, 0x02, 0x20, 0x02]
           = Some (replicate 4 None @ map Some [0xFC, 0xFD, 0xFE, 0xFF, 0x20, 0x02, 0x20, 0x02]
                     @ replicate 60 None)"
    by (simp add: buf_write_def SZ_MINIMUM_def)
  note t = read_chunks_foreach_pads [where address = "0x0200" and sz = "0x7C" and port = "[]"
      and log = "[]" and buf = "replicate 72 None",
      OF logged_device_sel(1) simulator_answers n len short a off]
  from t obtain data port' where
    "suunto_common2_device_read ?device 0x0200 0x7C ([], [])
       = Some ((DC_STATUS_SUCCESS, data), (port', [] @ read_commands 0x0200 0x7C))"
    and "length data = 0x7C"
    by blast
  then have "map_option (\<lambda>r. (fst (fst r), length (snd (fst r)), snd (snd r)))
       (suunto_common2_device_read ?device 0x0200 0x7C ([], []))
     = Some (DC_STATUS_SUCCESS, 0x7C,
             [[0x05, 0x00, 0x03, 0x02, 0x00, 0x78, 0x7C], [0x05, 0x00, 0x03, 0x02, 0x78, 0x04, 0x78]])"
    by (simp add: two_read_commands)
  moreover from t have "foreach_packages ?device 4 4 0 0x0204 12 (replicate 72 None) ([], [])
     = Some (DC_STATUS_SUCCESS, 4, 0x0200, 8,
             replicate 4 None @ map Some [0xFC, 0xFD, 0xFE, 0xFF, 0x20, 0x02, 0x20, 0x02]
               @ replicate 60 None,
             ([[0x05, 0x00, 0x03, 0x01, 0xFC, 0x08, 0xF3]],
              [[0x05, 0x00, 0x03, 0x01, 0xFC, 0x08, 0xF3]]))"
    by (simp add: SZ_MINIMUM_def u32_sub_def u32_add_def logged_read w [unfolded SZ_MINIMUM_def, simplified]
          foreach_packages_done)
  moreover from t have "\<forall>bytes buf'.
             length bytes = SZ_MINIMUM \<and> SZ_MINIMUM - 4 \<le> 8 \<and>
             buf_write (replicate 72 None) (8 - (SZ_MINIMUM - 4)) bytes = Some buf'
             \<longrightarrow> buf_slice buf' 8 4 = Some (drop (SZ_MINIMUM - 4) bytes)"
    by blast
  from this [rule_format, OF conjI [OF _ conjI [OF _ w]]]
  have "buf_slice (replicate 4 None @ map Some [0xFC, 0xFD, 0xFE, 0xFF, 0x20, 0x02, 0x20, 0x02]
                 @ replicate 60 None) 8 4
     = Some (drop (SZ_MINIMUM - 4) [0xFC, 0xFD, 0xFE, 0xFF, 0x20, 0x02, 0x20, 0x02])"
    by (simp add: SZ_MINIMUM_def)
  ultimately show ?thesis
    by (simp add: SZ_MINIMUM_def)
qed

end
